theory Spec2Isabelle
  imports Complex_Main "HOL-Library.Char_ord" "HOL-Library.List_Lexorder"
begin

section \<open>The demand-forecasting notebook\<close>

text \<open>
  The program is the notebook \<^verbatim>\<open>05_demand_forecasting.ipynb\<close>: a sequence of
  pandas statements over a handful of data frames. The forecasting services it calls
  (\<^verbatim>\<open>nixtla_client.forecast\<close>, \<^verbatim>\<open>StatsForecast.fit/predict\<close>) are opaque and enter
  the model as parameters. The pandas and utilsforecast operations the notebook calls
  are modelled on the frames the notebook gives them.

  Numbers are exact reals, with one extra value \<open>NaN\<close> for a missing or invalid number.
  The notebook computes in 64-bit floating point: there every operation rounds, the
  logarithm at \<open>-1 + 1\<close> is \<^verbatim>\<open>-inf\<close>, and \<^verbatim>\<open>np.exp\<close> overflows to \<^verbatim>\<open>inf\<close> and loses
  small arguments (\<^verbatim>\<open>np.exp(t) - 1\<close> is exactly \<^verbatim>\<open>-1.0\<close> for \<open>t\<close> below about \<open>-37.5\<close>).
  None of this is modelled. The properties below are about which rows, columns and cells
  the statements read and write and which arithmetic they apply to them; no property
  about the numeric accuracy of \<^verbatim>\<open>np.log\<close> and \<^verbatim>\<open>np.exp\<close> is stated.
\<close>

subsection \<open>Data frames\<close>

text \<open>
  A pandas cell is a string, a timestamp or a float; \<open>NaN\<close> is the missing value. A row
  is the list of its named cells in column order, and a frame keeps its column names
  (they survive when there is no row) and its rows, each with its index label.
\<close>

datatype cell = Str string | Time int | Num real | NaN

datatype error = KeyError string | TypeError | ValueError | NameError string | ProviderError

text \<open>
  The kind of a cell. The cells of one kind are what a pandas column of one dtype holds:
  floats (\<^verbatim>\<open>float64\<close>), timestamps (\<^verbatim>\<open>datetime64\<close>), strings (\<^verbatim>\<open>object\<close>).
\<close>

fun kind :: "cell \<Rightarrow> nat" where
  "kind (Num v) = 0"
| "kind (Time t) = 1"
| "kind (Str s) = 2"
| "kind NaN = 3"

type_synonym row = "(string \<times> cell) list"

record frame =
  columns :: "string list"
  body :: "(nat \<times> row) list"

definition and_then :: "error + 'a \<Rightarrow> ('a \<Rightarrow> error + 'b) \<Rightarrow> error + 'b" where
  "and_then m f = (case m of Inl e \<Rightarrow> Inl e | Inr x \<Rightarrow> f x)"

fun traverse :: "('a \<Rightarrow> error + 'b) \<Rightarrow> 'a list \<Rightarrow> error + 'b list" where
  "traverse g [] = Inr []"
| "traverse g (x # xs) =
     and_then (g x) (\<lambda>y. and_then (traverse g xs) (\<lambda>ys. Inr (y # ys)))"

definition cell_of :: "row \<Rightarrow> string \<Rightarrow> cell" where
  "cell_of r c = (case map_of r c of Some v \<Rightarrow> v | None \<Rightarrow> NaN)"

text \<open>
  \<^verbatim>\<open>pd.read_csv\<close> numbers the rows \<open>0, 1, 2, ...\<close> (a RangeIndex).
\<close>

definition read_csv :: "string list \<Rightarrow> row list \<Rightarrow> frame" where
  "read_csv cols rs = \<lparr>columns = cols, body = zip [0..<length rs] rs\<rparr>"

text \<open>\<^verbatim>\<open>df[c]\<close>: the column, or KeyError.\<close>

definition get_col :: "string \<Rightarrow> frame \<Rightarrow> error + cell list" where
  "get_col c f =
     (if c \<in> set (columns f) then Inr (map (\<lambda>(i, r). cell_of r c) (body f))
      else Inl (KeyError c))"

definition put_cell :: "string \<Rightarrow> cell \<Rightarrow> row \<Rightarrow> row" where
  "put_cell c v r =
     (if c \<in> set (map fst r) then map (\<lambda>(k, x). if k = c then (k, v) else (k, x)) r
      else r @ [(c, v)])"

text \<open>
  \<^verbatim>\<open>df[c] = values\<close> with an array of values: they go to the rows by position, and
  pandas raises ValueError when their number is not the number of rows.
\<close>

definition set_col :: "string \<Rightarrow> cell list \<Rightarrow> frame \<Rightarrow> error + frame" where
  "set_col c vs f =
     (if length vs \<noteq> length (body f) then Inl ValueError
      else Inr \<lparr>columns = (if c \<in> set (columns f) then columns f else columns f @ [c]),
                body = map (\<lambda>((i, r), v). (i, put_cell c v r)) (zip (body f) vs)\<rparr>)"

text \<open>
  The two numpy expressions \<^verbatim>\<open>np.log(x + 1)\<close> and \<^verbatim>\<open>np.exp(x) - 1\<close> on one cell,
  in exact arithmetic. A string or a timestamp makes numpy raise TypeError; \<open>NaN\<close> stays
  \<open>NaN\<close>. Outside its domain (\<open>v + 1 \<le> 0\<close>) the logarithm gives no number: numpy answers
  \<^verbatim>\<open>-inf\<close> at \<open>v = -1\<close> and \<^verbatim>\<open>nan\<close> below (with a warning, not an error), and the model
  has the one value \<open>NaN\<close> for both.
\<close>

fun np_log_plus_one :: "cell \<Rightarrow> error + cell" where
  "np_log_plus_one (Num v) = Inr (if 0 < v + 1 then Num (ln (v + 1)) else NaN)"
| "np_log_plus_one NaN = Inr NaN"
| "np_log_plus_one (Str s) = Inl TypeError"
| "np_log_plus_one (Time t) = Inl TypeError"

fun np_exp_minus_one :: "cell \<Rightarrow> error + cell" where
  "np_exp_minus_one (Num t) = Inr (Num (exp t - 1))"
| "np_exp_minus_one NaN = Inr NaN"
| "np_exp_minus_one (Str s) = Inl TypeError"
| "np_exp_minus_one (Time t) = Inl TypeError"

text \<open>\<^verbatim>\<open>df[c] = g(df[c])\<close> for an elementwise \<open>g\<close>.\<close>

definition apply_col :: "(cell \<Rightarrow> error + cell) \<Rightarrow> string \<Rightarrow> frame \<Rightarrow> error + frame" where
  "apply_col g c f =
     and_then (get_col c f) (\<lambda>vs. and_then (traverse g vs) (\<lambda>ws. set_col c ws f))"

text \<open>
  \<^verbatim>\<open>df_transformed["y"] = np.log(df_transformed["y"] + 1)\<close>
\<close>

definition log_transform :: "frame \<Rightarrow> error + frame" where
  "log_transform f = apply_col np_log_plus_one ''y'' f"

text \<open>
  \<^verbatim>\<open>cols = [col for col in fcst_df.columns if col not in ["ds", "unique_id"]]\<close>
  \<^verbatim>\<open>for col in cols: fcst_df[col] = np.exp(fcst_df[col]) - 1\<close>
\<close>

definition value_cols :: "frame \<Rightarrow> string list" where
  "value_cols f = filter (\<lambda>col. col \<notin> set [''ds'', ''unique_id'']) (columns f)"

fun for_cols :: "(string \<Rightarrow> frame \<Rightarrow> error + frame) \<Rightarrow> string list \<Rightarrow> frame \<Rightarrow> error + frame" where
  "for_cols stmt [] f = Inr f"
| "for_cols stmt (col # cols) f = and_then (stmt col f) (for_cols stmt cols)"

definition inverse_loop :: "frame \<Rightarrow> error + frame" where
  "inverse_loop f = for_cols (apply_col np_exp_minus_one) (value_cols f) f"

subsection \<open>Splitting off the last rows of every series\<close>

text \<open>
  \<^verbatim>\<open>df.groupby(k).tail(n)\<close> keeps, in the frame's own order and under their own labels,
  the rows that have fewer than \<open>n\<close> later rows with the same key; a row whose key is
  missing belongs to no group and is not kept.
\<close>

fun tail_rows :: "string \<Rightarrow> nat \<Rightarrow> (nat \<times> row) list \<Rightarrow> (nat \<times> row) list" where
  "tail_rows k n [] = []"
| "tail_rows k n (r # rs) =
     (if cell_of (snd r) k \<noteq> NaN
         \<and> length (filter (\<lambda>s. cell_of (snd s) k = cell_of (snd r) k) rs) < n
      then r # tail_rows k n rs else tail_rows k n rs)"

definition groupby_tail :: "string \<Rightarrow> nat \<Rightarrow> frame \<Rightarrow> error + frame" where
  "groupby_tail k n f =
     (if k \<in> set (columns f) then Inr (f\<lparr>body := tail_rows k n (body f)\<rparr>)
      else Inl (KeyError k))"

text \<open>
  \<^verbatim>\<open>df.drop(labels)\<close> removes every row whose label is listed (KeyError for a label the
  frame does not have); \<^verbatim>\<open>reset_index(drop=True)\<close> renumbers the rows.
\<close>

definition drop_labels :: "nat list \<Rightarrow> frame \<Rightarrow> error + frame" where
  "drop_labels ls f =
     (if set ls \<subseteq> set (map fst (body f))
      then Inr (f\<lparr>body := filter (\<lambda>r. fst r \<notin> set ls) (body f)\<rparr>)
      else Inl (KeyError ''index''))"

definition reset_index :: "frame \<Rightarrow> frame" where
  "reset_index f = f\<lparr>body := zip [0..<length (body f)] (map snd (body f))\<rparr>"

text \<open>
  The rows \<^verbatim>\<open>groupby(k).tail(n)\<close> leaves behind; \<^verbatim>\<open>drop(test_df.index)\<close> is shown
  below to keep exactly these when the labels are distinct.
\<close>

fun rest_rows :: "string \<Rightarrow> nat \<Rightarrow> (nat \<times> row) list \<Rightarrow> (nat \<times> row) list" where
  "rest_rows k n [] = []"
| "rest_rows k n (r # rs) =
     (if cell_of (snd r) k \<noteq> NaN
         \<and> length (filter (\<lambda>s. cell_of (snd s) k = cell_of (snd r) k) rs) < n
      then rest_rows k n rs else r # rest_rows k n rs)"

definition horizon :: nat where
  "horizon = 28"

text \<open>
  \<^verbatim>\<open>test_df = df_transformed.groupby("unique_id").tail(28)\<close>
  \<^verbatim>\<open>input_df = df_transformed.drop(test_df.index).reset_index(drop=True)\<close>
  The result is the pair \<open>(input_df, test_df)\<close>.
\<close>

definition splitter :: "nat \<Rightarrow> frame \<Rightarrow> error + frame \<times> frame" where
  "splitter h f =
     and_then (groupby_tail ''unique_id'' h f) (\<lambda>test_df.
     and_then (drop_labels (map fst (body test_df)) f) (\<lambda>rest.
     Inr (reset_index rest, test_df)))"

text \<open>The records of one series, in the frame's order, and their timestamps.\<close>

definition series :: "string \<Rightarrow> frame \<Rightarrow> row list" where
  "series sid f = filter (\<lambda>r. cell_of r ''unique_id'' = Str sid) (map snd (body f))"

definition earlier :: "row \<Rightarrow> row \<Rightarrow> bool" where
  "earlier a b =
     (case (cell_of a ''ds'', cell_of b ''ds'') of
        (Time s, Time t) \<Rightarrow> s < t
      | _ \<Rightarrow> False)"

definition chronological :: "string \<Rightarrow> frame \<Rightarrow> bool" where
  "chronological sid f = sorted_wrt earlier (series sid f)"

subsection \<open>Joining predictions to the holdout\<close>

text \<open>
  \<^verbatim>\<open>pd.merge(left, right, "left", on)\<close>. Every row of \<open>left\<close>, in order, is joined with
  every row of \<open>right\<close> that has the same key (the cells of the columns \<open>on\<close>); a row of
  \<open>left\<close> with no such row is kept once, with \<open>NaN\<close> in the columns that come from \<open>right\<close>.
  A column that both frames have and that is not a key gets the suffix \<^verbatim>\<open>_x\<close> on the
  left and \<^verbatim>\<open>_y\<close> on the right. The result is numbered anew.

  Two things make pandas raise. A key column that one of the frames lacks raises
  KeyError. A key column whose dtype differs between the two frames (strings on one side
  and timestamps or numbers on the other, timestamps against numbers) raises ValueError,
  which is why the notebook converts \<^verbatim>\<open>ds\<close> with \<^verbatim>\<open>pd.to_datetime\<close> before it
  merges. A frame of the model has no dtypes of its own: the dtype of a column is read
  off its cells, and the merge raises when a present key cell of \<open>left\<close> and a present
  key cell of \<open>right\<close> in the same key column are of different kinds. A key column
  without any present cell has no kind and is accepted.
\<close>

definition key_of :: "string list \<Rightarrow> row \<Rightarrow> cell list" where
  "key_of on r = map (cell_of r) on"

definition matches :: "string list \<Rightarrow> frame \<Rightarrow> row \<Rightarrow> row list" where
  "matches on right l = filter (\<lambda>r. key_of on r = key_of on l) (map snd (body right))"

definition suffixed :: "string list \<Rightarrow> string \<Rightarrow> string \<Rightarrow> string" where
  "suffixed overlap sfx c = (if c \<in> set overlap then c @ sfx else c)"

definition other_cols :: "string list \<Rightarrow> frame \<Rightarrow> string list" where
  "other_cols on right = filter (\<lambda>c. c \<notin> set on) (columns right)"

definition overlap_cols :: "frame \<Rightarrow> frame \<Rightarrow> string list \<Rightarrow> string list" where
  "overlap_cols left right on = filter (\<lambda>c. c \<in> set (columns left)) (other_cols on right)"

definition join_row :: "frame \<Rightarrow> frame \<Rightarrow> string list \<Rightarrow> row \<Rightarrow> row list" where
  "join_row left right on l =
     (let ov = overlap_cols left right on;
          lcells = map (\<lambda>(c, v). (suffixed ov ''_x'' c, v)) l
      in case matches on right l of
           [] \<Rightarrow> [lcells @ map (\<lambda>c. (suffixed ov ''_y'' c, NaN)) (other_cols on right)]
         | ms \<Rightarrow> map (\<lambda>r. lcells @ map (\<lambda>c. (suffixed ov ''_y'' c, cell_of r c))
                                      (other_cols on right)) ms)"

definition key_cells :: "string \<Rightarrow> frame \<Rightarrow> cell list" where
  "key_cells k f = filter (\<lambda>c. c \<noteq> NaN) (map (\<lambda>(i, r). cell_of r k) (body f))"

definition kinds_differ :: "frame \<Rightarrow> frame \<Rightarrow> string \<Rightarrow> bool" where
  "kinds_differ left right k =
     (\<exists>x\<in>set (key_cells k left). \<exists>y\<in>set (key_cells k right). kind x \<noteq> kind y)"

definition merge_left :: "frame \<Rightarrow> frame \<Rightarrow> string list \<Rightarrow> error + frame" where
  "merge_left left right on =
     (case filter (\<lambda>k. k \<notin> set (columns left) \<or> k \<notin> set (columns right)) on of
        k # ks \<Rightarrow> Inl (KeyError k)
      | [] \<Rightarrow>
          if list_ex (kinds_differ left right) on then Inl ValueError
          else
          (let ov = overlap_cols left right on;
               joined = concat (map (join_row left right on) (map snd (body left)))
           in Inr \<lparr>columns = map (suffixed ov ''_x'') (columns left)
                              @ map (suffixed ov ''_y'') (other_cols on right),
                   body = zip [0..<length joined] joined\<rparr>))"

text \<open>The join key of the notebook's two merges: \<^verbatim>\<open>["unique_id", "ds"]\<close>.\<close>

definition join_key :: "string list" where
  "join_key = [''unique_id'', ''ds'']"

text \<open>
  The rows of \<open>right\<close> whose key is the key of some row of \<open>left\<close>.
\<close>

definition matched_only :: "string list \<Rightarrow> frame \<Rightarrow> frame \<Rightarrow> frame" where
  "matched_only on left right =
     right\<lparr>body := filter (\<lambda>(j, r). key_of on r \<in> set (map (key_of on) (map snd (body left))))
                       (body right)\<rparr>"

subsection \<open>Error metric and its summary\<close>

text \<open>
  \<^verbatim>\<open>.mean()\<close> of a float column skips the missing values; it is \<open>NaN\<close> when nothing is
  left, and a string or a timestamp in the column raises TypeError.
\<close>

fun numbers :: "cell list \<Rightarrow> error + real list" where
  "numbers [] = Inr []"
| "numbers (Num v # cs) = and_then (numbers cs) (\<lambda>vs. Inr (v # vs))"
| "numbers (NaN # cs) = numbers cs"
| "numbers (Str s # cs) = Inl TypeError"
| "numbers (Time t # cs) = Inl TypeError"

definition mean :: "cell list \<Rightarrow> error + cell" where
  "mean cs =
     and_then (numbers cs) (\<lambda>vs.
       Inr (if vs = [] then NaN else Num (sum_list vs / real (length vs))))"

text \<open>
  The groups of \<^verbatim>\<open>df.groupby(k)\<close>: one per key that occurs, a missing key belonging to
  no group, in sorted key order. Keys of one kind are ordered as pandas orders them
  (strings by code point); the order between keys of different kinds is a choice of the
  model, which no statement of the notebook depends on.
\<close>

fun cell_le :: "cell \<Rightarrow> cell \<Rightarrow> bool" where
  "cell_le (Str a) (Str b) = (a \<le> b)"
| "cell_le (Time a) (Time b) = (a \<le> b)"
| "cell_le (Num a) (Num b) = (a \<le> b)"
| "cell_le a b = (kind a \<le> kind b)"

fun insert_key :: "cell \<Rightarrow> cell list \<Rightarrow> cell list" where
  "insert_key k [] = [k]"
| "insert_key k (x # xs) = (if cell_le k x then k # x # xs else x # insert_key k xs)"

definition sort_keys :: "cell list \<Rightarrow> cell list" where
  "sort_keys ks = foldr insert_key ks []"

definition group_keys :: "string \<Rightarrow> frame \<Rightarrow> cell list" where
  "group_keys k f =
     sort_keys (remdups (filter (\<lambda>c. c \<noteq> NaN) (map (\<lambda>(i, r). cell_of r k) (body f))))"

definition group_rows :: "string \<Rightarrow> cell \<Rightarrow> frame \<Rightarrow> row list" where
  "group_rows k key f = filter (\<lambda>r. cell_of r k = key) (map snd (body f))"

text \<open>
  \<^verbatim>\<open>df.groupby(k)[cols].mean()\<close>: for every group, the mean of each of the columns
  \<open>cols\<close> over the rows of the group. The result maps a key to the named means.
\<close>

definition groupby_mean :: "string \<Rightarrow> string list \<Rightarrow> frame \<Rightarrow> error + (cell \<times> row) list" where
  "groupby_mean k cols f =
     (case filter (\<lambda>c. c \<notin> set (columns f)) (k # cols) of
        c # cs \<Rightarrow> Inl (KeyError c)
      | [] \<Rightarrow>
          traverse (\<lambda>key.
            and_then (traverse (\<lambda>c.
                and_then (mean (map (\<lambda>r. cell_of r c) (group_rows k key f)))
                  (\<lambda>v. Inr (c, v))) cols)
              (\<lambda>cells. Inr (key, cells)))
            (group_keys k f))"

text \<open>
  \<^verbatim>\<open>utilsforecast.losses.mae\<close>: the absolute difference between the target column and
  each model column, row by row, averaged over the rows of every series.
\<close>

fun abs_error :: "cell \<Rightarrow> cell \<Rightarrow> error + cell" where
  "abs_error (Num y) (Num p) = Inr (Num \<bar>p - y\<bar>)"
| "abs_error (Num y) NaN = Inr NaN"
| "abs_error NaN (Num p) = Inr NaN"
| "abs_error NaN NaN = Inr NaN"
| "abs_error y p = Inl TypeError"

definition abs_errors :: "frame \<Rightarrow> string list \<Rightarrow> string \<Rightarrow> string \<Rightarrow> error + frame" where
  "abs_errors df models id_col target_col =
     (case filter (\<lambda>c. c \<notin> set (columns df)) (models @ [target_col, id_col]) of
        c # cs \<Rightarrow> Inl (KeyError c)
      | [] \<Rightarrow>
          and_then (traverse (\<lambda>(i, r).
              and_then (traverse (\<lambda>m.
                  and_then (abs_error (cell_of r target_col) (cell_of r m)) (\<lambda>e. Inr (m, e)))
                models)
                (\<lambda>cells. Inr (i, (id_col, cell_of r id_col) # cells)))
            (body df))
            (\<lambda>rows. Inr \<lparr>columns = id_col # models, body = rows\<rparr>))"

definition mae :: "frame \<Rightarrow> string list \<Rightarrow> string \<Rightarrow> string \<Rightarrow> error + (cell \<times> row) list" where
  "mae df models id_col target_col =
     and_then (abs_errors df models id_col target_col) (groupby_mean id_col models)"

text \<open>
  \<^verbatim>\<open>evaluate(df, metrics=[mae], models=models, target_col=..., id_col=...)\<close>: one row
  per series, with the columns \<open>id_col\<close>, \<^verbatim>\<open>metric\<close> and one column per model.
\<close>

definition evaluate :: "frame \<Rightarrow> string list \<Rightarrow> string \<Rightarrow> string \<Rightarrow> error + frame" where
  "evaluate df models target_col id_col =
     and_then (mae df models id_col target_col) (\<lambda>res.
       Inr \<lparr>columns = [id_col, ''metric''] @ models,
            body = zip [0..<length res]
                     (map (\<lambda>(key, cells). (id_col, key) # (''metric'', Str ''mae'') # cells) res)\<rparr>)"

text \<open>
  \<^verbatim>\<open>average_metrics = evaluation.groupby("metric")[models].mean()\<close>, and the value it
  holds for a metric and a model. The per-series values of a model that enter the mean
  are the numbers in its column; \<open>present\<close> lists them.
\<close>

definition summarize :: "frame \<Rightarrow> string list \<Rightarrow> error + (cell \<times> row) list" where
  "summarize evaluation models = groupby_mean ''metric'' models evaluation"

definition aggregate :: "(cell \<times> row) list \<Rightarrow> string \<Rightarrow> string \<Rightarrow> cell option" where
  "aggregate table metric model =
     (case map_of table (Str metric) of None \<Rightarrow> None | Some cells \<Rightarrow> map_of cells model)"

definition present :: "frame \<Rightarrow> string \<Rightarrow> string \<Rightarrow> real list" where
  "present evaluation metric model =
     concat (map (\<lambda>r. case cell_of r model of Num v \<Rightarrow> [v] | _ \<Rightarrow> [])
                 (group_rows ''metric'' (Str metric) evaluation))"

subsection \<open>The remaining frame operations\<close>

text \<open>
  \<^verbatim>\<open>pd.to_datetime\<close> on one cell: a timestamp stays, a missing value stays missing,
  a number counts from the epoch with its fraction cut off (towards zero), and a string
  is parsed (ValueError when it is no date). The parser is a parameter.
\<close>

fun to_datetime :: "(string \<Rightarrow> int option) \<Rightarrow> cell \<Rightarrow> error + cell" where
  "to_datetime parse (Time t) = Inr (Time t)"
| "to_datetime parse NaN = Inr NaN"
| "to_datetime parse (Num v) = Inr (Time (if 0 \<le> v then \<lfloor>v\<rfloor> else \<lceil>v\<rceil>))"
| "to_datetime parse (Str s) =
     (case parse s of Some t \<Rightarrow> Inr (Time t) | None \<Rightarrow> Inl ValueError)"

text \<open>\<^verbatim>\<open>df.drop(cols, axis=1)\<close>: KeyError for a column the frame does not have.\<close>

definition drop_columns :: "string list \<Rightarrow> frame \<Rightarrow> error + frame" where
  "drop_columns cols f =
     (case filter (\<lambda>c. c \<notin> set (columns f)) cols of
        c # cs \<Rightarrow> Inl (KeyError c)
      | [] \<Rightarrow> Inr \<lparr>columns = filter (\<lambda>c. c \<notin> set cols) (columns f),
                    body = map (\<lambda>(i, r). (i, filter (\<lambda>(c, v). c \<notin> set cols) r)) (body f)\<rparr>)"

text \<open>\<^verbatim>\<open>df.rename(columns={old: new}, inplace=True)\<close>; a missing column is ignored.\<close>

definition rename_column :: "string \<Rightarrow> string \<Rightarrow> frame \<Rightarrow> frame" where
  "rename_column old new f =
     \<lparr>columns = map (\<lambda>c. if c = old then new else c) (columns f),
      body = map (\<lambda>(i, r). (i, map (\<lambda>(c, v). (if c = old then new else c, v)) r)) (body f)\<rparr>"

text \<open>
  \<^verbatim>\<open>test_df["TimeGPT_ex"] = fcst_df["TimeGPT_ex"].values\<close>: the values of the
  forecast column, as a bare array, are written to the rows of \<open>test_df\<close> by position.
\<close>

definition attach_values :: "string \<Rightarrow> frame \<Rightarrow> frame \<Rightarrow> error + frame" where
  "attach_values col fcst_df test_df =
     and_then (get_col col fcst_df) (\<lambda>vs. set_col col vs test_df)"

subsection \<open>The notebook as a program over a store\<close>

text \<open>
  Python variables name objects. The state maps variable names to addresses and
  addresses to objects. A statement either binds a name to a newly built object
  (\<^verbatim>\<open>x = e\<close>, where every right-hand side of the notebook builds a new object:
  \<^verbatim>\<open>copy()\<close>, \<^verbatim>\<open>tail()\<close>, \<^verbatim>\<open>drop()\<close>, \<^verbatim>\<open>merge()\<close>, \<^verbatim>\<open>forecast()\<close>, \<^verbatim>\<open>evaluate()\<close>,
  \<^verbatim>\<open>mean()\<close>), or changes the object a name refers to in place (\<^verbatim>\<open>x[c] = e\<close>,
  \<^verbatim>\<open>x.rename(..., inplace=True)\<close>): the right-hand side is evaluated in the state and
  gives the change, which is then made to the object the name refers to. A statement
  that raises stops the run, and the model keeps the state from before the statement
  (in Python a loop over columns that raises halfway has already changed some columns
  of the one frame it works on).
\<close>

type_synonym addr = nat

datatype obj = Frame frame | Summary "(cell \<times> row) list"

record notebook =
  vars :: "string \<Rightarrow> addr option"
  heap :: "addr \<Rightarrow> obj option"
  next_addr :: addr

datatype stmt =
  Assign string "notebook \<Rightarrow> error + obj"
| Update string "notebook \<Rightarrow> error + (frame \<Rightarrow> error + frame)"

definition frame_of :: "notebook \<Rightarrow> string \<Rightarrow> error + frame" where
  "frame_of s v =
     (case vars s v of
        None \<Rightarrow> Inl (NameError v)
      | Some a \<Rightarrow> (case heap s a of Some (Frame f) \<Rightarrow> Inr f | _ \<Rightarrow> Inl TypeError))"

definition summary_of :: "notebook \<Rightarrow> string \<Rightarrow> error + (cell \<times> row) list" where
  "summary_of s v =
     (case vars s v of
        None \<Rightarrow> Inl (NameError v)
      | Some a \<Rightarrow> (case heap s a of Some (Summary t) \<Rightarrow> Inr t | _ \<Rightarrow> Inl TypeError))"

definition new_frame :: "error + frame \<Rightarrow> error + obj" where
  "new_frame m = and_then m (\<lambda>f. Inr (Frame f))"

fun exec :: "stmt \<Rightarrow> notebook \<Rightarrow> error + notebook" where
  "exec (Assign v e) s =
     and_then (e s) (\<lambda>x.
       Inr (s\<lparr>vars := (vars s)(v \<mapsto> next_addr s),
              heap := (heap s)(next_addr s \<mapsto> x),
              next_addr := Suc (next_addr s)\<rparr>))"
| "exec (Update v e) s =
     and_then (e s) (\<lambda>change.
       case vars s v of
         None \<Rightarrow> Inl (NameError v)
       | Some a \<Rightarrow>
           (case heap s a of
              Some (Frame f) \<Rightarrow>
                and_then (change f) (\<lambda>f'. Inr (s\<lparr>heap := (heap s)(a \<mapsto> Frame f')\<rparr>))
            | _ \<Rightarrow> Inl TypeError))"

fun run :: "stmt list \<Rightarrow> notebook \<Rightarrow> notebook \<times> error option" where
  "run [] s = (s, None)"
| "run (c # cs) s = (case exec c s of Inl e \<Rightarrow> (s, Some e) | Inr s' \<Rightarrow> run cs s')"

fun target :: "stmt \<Rightarrow> string" where
  "target (Assign v e) = v"
| "target (Update v e) = v"

definition empty_notebook :: notebook where
  "empty_notebook = \<lparr>vars = (\<lambda>v. None), heap = (\<lambda>a. None), next_addr = 0\<rparr>"

text \<open>
  What the notebook takes from outside: the CSV file, the date parser, and the three
  forecasting calls, each a function of the frames it is given (its other arguments are
  constants of the notebook): \<^verbatim>\<open>nixtla_client.forecast(df=input_df, h=28, ...)\<close>, the same
  call with \<^verbatim>\<open>X_df=futr_exog_df\<close>, and \<^verbatim>\<open>sf.fit(df=input_df)\<close> followed by
  \<^verbatim>\<open>sf.predict(h=28)\<close>. The plotting calls produce no value and are left out.
\<close>

record world =
  csv_columns :: "string list"
  csv_rows :: "row list"
  parse_date :: "string \<Rightarrow> int option"
  timegen :: "frame \<Rightarrow> error + frame"
  timegen_exog :: "frame \<Rightarrow> frame \<Rightarrow> error + frame"
  statsforecast :: "frame \<Rightarrow> error + frame"

text \<open>
  \<^verbatim>\<open>df = pd.read_csv(...)\<close>
  \<^verbatim>\<open>df["ds"] = pd.to_datetime(df["ds"])\<close>
\<close>

definition load :: "world \<Rightarrow> stmt list" where
  "load W =
     [Assign ''df'' (\<lambda>s. Inr (Frame (read_csv (csv_columns W) (csv_rows W)))),
      Update ''df'' (\<lambda>s. Inr (apply_col (to_datetime (parse_date W)) ''ds''))]"

definition loaded :: "world \<Rightarrow> notebook" where
  "loaded W = fst (run (load W) empty_notebook)"

text \<open>
  \<^verbatim>\<open>df_transformed = df.copy()\<close>
  \<^verbatim>\<open>df_transformed["y"] = np.log(df_transformed["y"] + 1)\<close>
  \<^verbatim>\<open>test_df = df_transformed.groupby("unique_id").tail(28)\<close>
  \<^verbatim>\<open>input_df = df_transformed.drop(test_df.index).reset_index(drop=True)\<close>
\<close>

definition transform_and_split :: "stmt list" where
  "transform_and_split =
     [Assign ''df_transformed'' (\<lambda>s. new_frame (frame_of s ''df'')),
      Update ''df_transformed'' (\<lambda>s. Inr log_transform),
      Assign ''test_df'' (\<lambda>s. new_frame
        (and_then (frame_of s ''df_transformed'') (groupby_tail ''unique_id'' horizon))),
      Assign ''input_df'' (\<lambda>s. new_frame
        (and_then (frame_of s ''df_transformed'') (\<lambda>d.
         and_then (frame_of s ''test_df'') (\<lambda>t.
         and_then (drop_labels (map fst (body t)) d) (\<lambda>rest. Inr (reset_index rest))))))]"

text \<open>
  \<^verbatim>\<open>fcst_df = nixtla_client.forecast(df=input_df, h=28, level=[80], ...)\<close>
  \<^verbatim>\<open>cols = [...]; for col in cols: fcst_df[col] = np.exp(fcst_df[col]) - 1\<close>
  \<^verbatim>\<open>fcst_df["ds"] = pd.to_datetime(fcst_df["ds"])\<close>
  \<^verbatim>\<open>test_df = pd.merge(test_df, fcst_df, "left", ["unique_id", "ds"])\<close>
  \<^verbatim>\<open>evaluation = evaluate(test_df, metrics=[mae], models=["TimeGPT"], target_col="y", id_col="unique_id")\<close>
  \<^verbatim>\<open>average_metrics = evaluation.groupby("metric")["TimeGPT"].mean()\<close>
\<close>

definition evaluation_cells :: "string list \<Rightarrow> stmt list" where
  "evaluation_cells models =
     [Assign ''evaluation'' (\<lambda>s. new_frame
        (and_then (frame_of s ''test_df'') (\<lambda>t. evaluate t models ''y'' ''unique_id''))),
      Assign ''average_metrics'' (\<lambda>s.
        and_then (frame_of s ''evaluation'') (\<lambda>e.
        and_then (summarize e models) (\<lambda>t. Inr (Summary t))))]"

definition timegen_cells :: "world \<Rightarrow> stmt list" where
  "timegen_cells W =
     [Assign ''fcst_df'' (\<lambda>s. new_frame (and_then (frame_of s ''input_df'') (timegen W))),
      Update ''fcst_df'' (\<lambda>s. Inr inverse_loop),
      Update ''fcst_df'' (\<lambda>s. Inr (apply_col (to_datetime (parse_date W)) ''ds'')),
      Assign ''test_df'' (\<lambda>s. new_frame
        (and_then (frame_of s ''test_df'') (\<lambda>t.
         and_then (frame_of s ''fcst_df'') (\<lambda>fc. merge_left t fc join_key))))]
     @ evaluation_cells [''TimeGPT'']"

text \<open>
  \<^verbatim>\<open>sf.fit(df=input_df); sf_preds = sf.predict(h=28)\<close>
  \<^verbatim>\<open>cols = [...]; for col in cols: sf_preds[col] = np.exp(sf_preds[col]) - 1\<close>
  \<^verbatim>\<open>test_df = pd.merge(test_df, sf_preds, "left", ["unique_id", "ds"])\<close>
  and the evaluation of the five models.
\<close>

definition statistical_models :: "string list" where
  "statistical_models = [''CrostonClassic'', ''CrostonOptimized'', ''IMAPA'', ''TSB'']"

definition statsforecast_cells :: "world \<Rightarrow> stmt list" where
  "statsforecast_cells W =
     [Assign ''sf_preds'' (\<lambda>s. new_frame (and_then (frame_of s ''input_df'') (statsforecast W))),
      Update ''sf_preds'' (\<lambda>s. Inr inverse_loop),
      Assign ''test_df'' (\<lambda>s. new_frame
        (and_then (frame_of s ''test_df'') (\<lambda>t.
         and_then (frame_of s ''sf_preds'') (\<lambda>p. merge_left t p join_key))))]
     @ evaluation_cells (''TimeGPT'' # statistical_models)"

text \<open>
  \<^verbatim>\<open>futr_exog_df = test_df.drop(["TimeGPT", ..., "sell_price"], axis=1)\<close>
  \<^verbatim>\<open>fcst_df = nixtla_client.forecast(df=input_df, X_df=futr_exog_df, h=28, ...)\<close>
  \<^verbatim>\<open>fcst_df.rename(columns={"TimeGPT": "TimeGPT_ex"}, inplace=True)\<close>
  \<^verbatim>\<open>cols = [...]; for col in cols: fcst_df[col] = np.exp(fcst_df[col]) - 1\<close>
  \<^verbatim>\<open>test_df["TimeGPT_ex"] = fcst_df["TimeGPT_ex"].values\<close>
  and the evaluation of the six models.
\<close>

definition exogenous_cells :: "world \<Rightarrow> stmt list" where
  "exogenous_cells W =
     [Assign ''futr_exog_df'' (\<lambda>s. new_frame
        (and_then (frame_of s ''test_df'')
           (drop_columns ([''TimeGPT''] @ statistical_models
              @ [''y'', ''TimeGPT-lo-80'', ''TimeGPT-hi-80'', ''sell_price''])))),
      Assign ''fcst_df'' (\<lambda>s. new_frame
        (and_then (frame_of s ''input_df'') (\<lambda>i.
         and_then (frame_of s ''futr_exog_df'') (\<lambda>x. timegen_exog W i x)))),
      Update ''fcst_df'' (\<lambda>s. Inr (\<lambda>f. Inr (rename_column ''TimeGPT'' ''TimeGPT_ex'' f))),
      Update ''fcst_df'' (\<lambda>s. Inr inverse_loop),
      Update ''test_df'' (\<lambda>s.
        and_then (frame_of s ''fcst_df'') (\<lambda>fc. Inr (attach_values ''TimeGPT_ex'' fc)))]
     @ evaluation_cells (''TimeGPT'' # statistical_models @ [''TimeGPT_ex''])"

definition pipeline :: "world \<Rightarrow> stmt list" where
  "pipeline W =
     transform_and_split @ timegen_cells W @ statsforecast_cells W @ exogenous_cells W"

subsection \<open>Example panels\<close>

text \<open>
  A series of \<open>n\<close> daily records, days \<open>0, 1, ..., n - 1\<close>, one unit sold on each day,
  with the three columns every frame of the notebook needs.
\<close>

definition daily :: "string \<Rightarrow> nat \<Rightarrow> row list" where
  "daily sid n =
     map (\<lambda>t. [(''unique_id'', Str sid), (''ds'', Time (int t)), (''y'', Num 1)]) [0..<n]"

definition panel_cols :: "string list" where
  "panel_cols = [''unique_id'', ''ds'', ''y'']"








text \<open>
  An evaluation table of two series, where the model \<^verbatim>\<open>TSB\<close> has no value for the
  second series.
\<close>

definition evaluation_example :: frame where
  "evaluation_example =
     \<lparr>columns = [''unique_id'', ''metric'', ''TimeGPT'', ''TSB''],
      body = [(0, [(''unique_id'', Str ''A''), (''metric'', Str ''mae''),
                   (''TimeGPT'', Num 1), (''TSB'', Num 2)]),
              (1, [(''unique_id'', Str ''B''), (''metric'', Str ''mae''),
                   (''TimeGPT'', Num 3), (''TSB'', NaN)])]\<rparr>"

subsection \<open>A run of the notebook\<close>

text \<open>
  One series \<^verbatim>\<open>A\<close> of 29 daily records with one unit sold on each day. The
  forecasting service answers with the value \<open>ln 2\<close>, the transformed value of one unit,
  for the point forecast and both interval bounds on each of the 28 days after the
  input: a forecast that is exactly right. The other two services fail.
\<close>

definition day_rows :: "cell \<Rightarrow> nat \<Rightarrow> nat \<Rightarrow> (nat \<times> row) list" where
  "day_rows y a b =
     map (\<lambda>t. (t, [(''unique_id'', Str ''A''), (''ds'', Time (int t)), (''y'', y)])) [a..<b]"

definition forecast_cols :: "string list" where
  "forecast_cols = [''unique_id'', ''ds'', ''TimeGPT'', ''TimeGPT-lo-80'', ''TimeGPT-hi-80'']"

definition forecast_rows :: "cell \<Rightarrow> cell \<Rightarrow> cell \<Rightarrow> (nat \<times> row) list" where
  "forecast_rows p lo hi =
     map (\<lambda>t. (t - 1, [(''unique_id'', Str ''A''), (''ds'', Time (int t)), (''TimeGPT'', p),
                        (''TimeGPT-lo-80'', lo), (''TimeGPT-hi-80'', hi)])) [1..<29]"

definition forecast28 :: "cell \<Rightarrow> frame" where
  "forecast28 v = \<lparr>columns = forecast_cols, body = forecast_rows v v v\<rparr>"

definition shop :: world where
  "shop = \<lparr>csv_columns = panel_cols, csv_rows = daily ''A'' 29,
           parse_date = (\<lambda>s. None),
           timegen = (\<lambda>input_df. Inr (forecast28 (Num (ln 2)))),
           timegen_exog = (\<lambda>input_df futr_exog_df. Inl ProviderError),
           statsforecast = (\<lambda>input_df. Inl ProviderError)\<rparr>"

definition scored_cols :: "string list" where
  "scored_cols = panel_cols @ [''TimeGPT'', ''TimeGPT-lo-80'', ''TimeGPT-hi-80'']"

definition scored_rows :: "(nat \<times> row) list" where
  "scored_rows =
     map (\<lambda>t. (t - 1, [(''unique_id'', Str ''A''), (''ds'', Time (int t)), (''y'', Num (ln 2)),
                        (''TimeGPT'', Num 1), (''TimeGPT-lo-80'', Num 1),
                        (''TimeGPT-hi-80'', Num 1)])) [1..<29]"

text \<open>
  The frames of the run: the panel as loaded, the transformed panel, the holdout and the
  input, the holdout with the inverse-transformed forecast merged in, and the evaluation.
\<close>

definition panel29 :: frame where
  "panel29 = \<lparr>columns = panel_cols, body = day_rows (Num 1) 0 29\<rparr>"

definition panel29_log :: frame where
  "panel29_log = \<lparr>columns = panel_cols, body = day_rows (Num (ln 2)) 0 29\<rparr>"

definition holdout28 :: frame where
  "holdout28 = \<lparr>columns = panel_cols, body = day_rows (Num (ln 2)) 1 29\<rparr>"

definition input1 :: frame where
  "input1 = \<lparr>columns = panel_cols, body = day_rows (Num (ln 2)) 0 1\<rparr>"


definition scored28 :: frame where
  "scored28 = \<lparr>columns = scored_cols, body = scored_rows\<rparr>"

definition evaluation1 :: frame where
  "evaluation1 = \<lparr>columns = [''unique_id'', ''metric'', ''TimeGPT''],
            body = [(0, [(''unique_id'', Str ''A''), (''metric'', Str ''mae''),
                         (''TimeGPT'', Num (1 - ln 2))])]\<rparr>"

text \<open>
  Two series of 28 holdout days each, \<^verbatim>\<open>B\<close> stored before \<^verbatim>\<open>A\<close>, and a forecast of
  the same 56 days sorted by series: \<^verbatim>\<open>A\<close> (forecast 10) before \<^verbatim>\<open>B\<close> (forecast 20).
\<close>

definition holdout_days :: "string \<Rightarrow> row list" where
  "holdout_days sid =
     map (\<lambda>t. [(''unique_id'', Str sid), (''ds'', Time (int t)), (''y'', Num (ln 2))]) [1..<29]"

definition exog_days :: "string \<Rightarrow> real \<Rightarrow> row list" where
  "exog_days sid v =
     map (\<lambda>t. [(''unique_id'', Str sid), (''ds'', Time (int t)), (''TimeGPT_ex'', Num v)]) [1..<29]"

definition holdout_BA :: frame where
  "holdout_BA = \<lparr>columns = panel_cols,
                 body = zip [0..<56] (holdout_days ''B'' @ holdout_days ''A'')\<rparr>"

definition exog_forecast :: frame where
  "exog_forecast = \<lparr>columns = [''unique_id'', ''ds'', ''TimeGPT_ex''],
                    body = zip [0..<56] (exog_days ''A'' 10 @ exog_days ''B'' 20)\<rparr>"

section \<open>Properties\<close>

subsection \<open>Splitter\<close>

lemma tail_rows_subset: "set (tail_rows k n rs) \<subseteq> set rs"
  by (induction rs) auto

lemma drop_tail_labels:
  "distinct (map fst rs) \<Longrightarrow>
   filter (\<lambda>r. fst r \<notin> set (map fst (tail_rows k n rs))) rs = rest_rows k n rs"
proof (induction rs)
  case Nil
  then show ?case by simp
next
  case (Cons r rs)
  have notin: "fst r \<notin> set (map fst (tail_rows k n rs))"
    using Cons.prems tail_rows_subset [of k n rs] by auto
  have "\<And>x. x \<in> set rs \<Longrightarrow> fst x \<noteq> fst r"
    using Cons.prems by (metis distinct.simps(2) image_eqI list.simps(9) set_map)
  then have others: "\<And>L. filter (\<lambda>x. fst x \<notin> insert (fst r) L) rs = filter (\<lambda>x. fst x \<notin> L) rs"
    by (intro filter_cong) auto
  from Cons show ?case using notin others by simp
qed

lemma tail_rows_series:
  "filter (\<lambda>r. cell_of (snd r) k = Str s) (tail_rows k n rs)
     = drop (length (filter (\<lambda>r. cell_of (snd r) k = Str s) rs) - n)
         (filter (\<lambda>r. cell_of (snd r) k = Str s) rs)"
  by (induction rs) (auto simp: Suc_diff_le)

lemma rest_rows_series:
  "filter (\<lambda>r. cell_of (snd r) k = Str s) (rest_rows k n rs)
     = take (length (filter (\<lambda>r. cell_of (snd r) k = Str s) rs) - n)
         (filter (\<lambda>r. cell_of (snd r) k = Str s) rs)"
  by (induction rs) (auto simp: Suc_diff_le)

lemma and_then_Inr [simp]: "and_then (Inr x) g = g x"
  by (simp add: and_then_def)

lemma and_then_Inl [simp]: "and_then (Inl e) g = Inl e"
  by (simp add: and_then_def)

lemma body_read_csv: "map snd (body (read_csv cols rs)) = rs"
  by (simp add: read_csv_def)

lemma labels_read_csv: "map fst (body (read_csv cols rs)) = [0..<length rs]"
  by (simp add: read_csv_def)

lemma series_read_csv:
  "series sid (read_csv cols rs) = filter (\<lambda>r. cell_of r ''unique_id'' = Str sid) rs"
  by (simp add: series_def body_read_csv)

lemma series_reset_index [simp]: "series sid (reset_index f) = series sid f"
  by (simp add: series_def reset_index_def)

lemma series_body:
  "series sid (f\<lparr>body := rs\<rparr>) = map snd (filter (\<lambda>r. cell_of (snd r) ''unique_id'' = Str sid) rs)"
  by (simp add: series_def filter_map comp_def)

lemma series_alt:
  "series sid f = map snd (filter (\<lambda>r. cell_of (snd r) ''unique_id'' = Str sid) (body f))"
  by (simp add: series_def filter_map comp_def)

lemma splitter_result:
  "splitter h f =
     (if ''unique_id'' \<in> set (columns f)
      then Inr (reset_index (f\<lparr>body := filter (\<lambda>r. fst r \<notin> set (map fst (tail_rows ''unique_id'' h (body f)))) (body f)\<rparr>),
                f\<lparr>body := tail_rows ''unique_id'' h (body f)\<rparr>)
      else Inl (KeyError ''unique_id''))"
  using tail_rows_subset [of "''unique_id''" h "body f"]
  by (auto simp: splitter_def groupby_tail_def drop_labels_def)

lemma splitter_series:
  assumes "splitter h f = Inr (input_df, test_df)" and "distinct (map fst (body f))"
  shows "series sid test_df = drop (length (series sid f) - h) (series sid f)"
    and "series sid input_df = take (length (series sid f) - h) (series sid f)"
proof -
  let ?rest = "f\<lparr>body := filter (\<lambda>r. fst r \<notin> set (map fst (tail_rows ''unique_id'' h (body f)))) (body f)\<rparr>"
  from assms(1) have t: "test_df = f\<lparr>body := tail_rows ''unique_id'' h (body f)\<rparr>"
    and i: "input_df = reset_index ?rest"
    by (auto simp: splitter_result split: if_splits)
  show "series sid test_df = drop (length (series sid f) - h) (series sid f)"
    unfolding t by (simp add: series_body series_alt tail_rows_series drop_map)
  have "?rest = f\<lparr>body := rest_rows ''unique_id'' h (body f)\<rparr>"
    using drop_tail_labels [OF assms(2)] by simp
  then have "series sid input_df = series sid (f\<lparr>body := rest_rows ''unique_id'' h (body f)\<rparr>)"
    unfolding i by simp
  also have "\<dots> = take (length (series sid f) - h) (series sid f)"
    by (simp add: series_body series_alt rest_rows_series take_map)
  finally show "series sid input_df = take (length (series sid f) - h) (series sid f)" .
qed

lemma earlier_irrefl: "\<not> earlier a a"
  by (simp add: earlier_def split: cell.splits)

lemma cell_of_daily [simp]:
  "cell_of [(''unique_id'', Str sid), (''ds'', Time t), (''y'', Num v)] ''unique_id'' = Str sid"
  "cell_of [(''unique_id'', Str sid), (''ds'', Time t), (''y'', Num v)] ''ds'' = Time t"
  "cell_of [(''unique_id'', Str sid), (''ds'', Time t), (''y'', Num v)] ''y'' = Num v"
  by (simp_all add: cell_of_def)

lemma series_daily1: "series sid (read_csv cols (daily sid n)) = daily sid n"
  by (simp add: series_read_csv daily_def filter_map comp_def)

lemma length_daily [simp]: "length (daily sid n) = n"
  by (simp add: daily_def)

lemma chronological_daily: "chronological sid (read_csv cols (daily sid n))"
  by (simp add: chronological_def series_daily1)
     (simp add: daily_def sorted_wrt_map earlier_def)

lemma distinct_read_csv: "distinct (map fst (body (read_csv cols rs)))"
  by (simp add: labels_read_csv)

lemma tail_rows_all:
  "length rs \<le> n \<Longrightarrow> \<forall>r\<in>set rs. cell_of (snd r) k \<noteq> NaN \<Longrightarrow> tail_rows k n rs = rs"
proof (induction rs)
  case Nil
  then show ?case by simp
next
  case (Cons r rs)
  have "length (filter (\<lambda>s. cell_of (snd s) k = cell_of (snd r) k) rs) < n"
    using Cons.prems(1) length_filter_le [of "\<lambda>s. cell_of (snd s) k = cell_of (snd r) k" rs]
    by (simp del: length_filter_le)
  with Cons show ?case by simp
qed

text \<open>
  C2. Splitter partition, as the code has it. For every series of the panel (row labels
  distinct, as \<^verbatim>\<open>read_csv\<close> gives them) the holdout holds the last \<open>min h n\<close> of its \<open>n\<close>
  records in the panel's row order and the input holds the records before them: the
  two parts concatenate to the series, so their lengths add up to \<open>n\<close>, and the holdout
  has exactly \<open>h\<close> records whenever the series has at least \<open>h\<close>. When the series is in
  chronological order in the panel, every input record is earlier than every holdout
  record and no record is in both parts.
\<close>

theorem splitter_partition:
  assumes "splitter h f = Inr (input_df, test_df)" and "distinct (map fst (body f))"
  shows "series sid test_df = drop (length (series sid f) - h) (series sid f)
       \<and> series sid input_df = take (length (series sid f) - h) (series sid f)
       \<and> series sid input_df @ series sid test_df = series sid f
       \<and> length (series sid input_df) + length (series sid test_df) = length (series sid f)
       \<and> length (series sid test_df) = min h (length (series sid f))
       \<and> (h \<le> length (series sid f) \<longrightarrow> length (series sid test_df) = h)
       \<and> (chronological sid f \<longrightarrow>
            (\<forall>a\<in>set (series sid input_df). \<forall>b\<in>set (series sid test_df). earlier a b)
            \<and> set (series sid input_df) \<inter> set (series sid test_df) = {})"
proof -
  let ?S = "series sid f"
  note parts = splitter_series [OF assms, of sid]
  have chrono: "\<forall>a\<in>set (take (length ?S - h) ?S). \<forall>b\<in>set (drop (length ?S - h) ?S). earlier a b"
    if "chronological sid f"
  proof -
    from that have "sorted_wrt earlier (take (length ?S - h) ?S @ drop (length ?S - h) ?S)"
      by (simp add: chronological_def)
    then show ?thesis unfolding sorted_wrt_append by blast
  qed
  have disj: "set (take (length ?S - h) ?S) \<inter> set (drop (length ?S - h) ?S) = {}"
    if "chronological sid f"
    using chrono [OF that] earlier_irrefl by blast
  have len: "length (drop (length ?S - h) ?S) = min h (length ?S)"
    by (simp add: min_def)
  show ?thesis
    unfolding parts using chrono disj len by auto
qed

text \<open>
  The theorem at a series of 30 daily records and the notebook's horizon 28.
\<close>

theorem splitter_partition_witness:
  "\<exists>input_df test_df.
     splitter horizon (read_csv panel_cols (daily ''A'' 30)) = Inr (input_df, test_df)
     \<and> distinct (map fst (body (read_csv panel_cols (daily ''A'' 30))))
     \<and> chronological ''A'' (read_csv panel_cols (daily ''A'' 30))
     \<and> length (series ''A'' test_df) = 28
     \<and> length (series ''A'' input_df) = 2
     \<and> series ''A'' input_df @ series ''A'' test_df = daily ''A'' 30
     \<and> set (series ''A'' input_df) \<inter> set (series ''A'' test_df) = {}"
proof -
  let ?f = "read_csv panel_cols (daily ''A'' 30)"
  have "''unique_id'' \<in> set (columns ?f)"
    by (simp add: read_csv_def panel_cols_def)
  then obtain input_df test_df where s: "splitter horizon ?f = Inr (input_df, test_df)"
    by (simp add: splitter_result)
  have d: "distinct (map fst (body ?f))" by (rule distinct_read_csv)
  have c: "chronological ''A'' ?f" by (rule chronological_daily)
  have len: "length (series ''A'' ?f) = 30" by (simp add: series_daily1)
  note p = splitter_partition [OF s d, of "''A''"]
  from p have t: "length (series ''A'' test_df) = 28"
    by (simp add: len horizon_def)
  from p have a: "series ''A'' input_df @ series ''A'' test_df = daily ''A'' 30"
    by (simp add: series_daily1)
  from p have "length (series ''A'' input_df) + length (series ''A'' test_df) = 30"
    by (simp add: len)
  with t have i: "length (series ''A'' input_df) = 2" by simp
  from p c have x: "set (series ''A'' input_df) \<inter> set (series ''A'' test_df) = {}"
    by blast
  from s d c t i a x show ?thesis by blast
qed

text \<open>
  A series of two records: the split returns an empty input and the panel itself as
  holdout, so the holdout of the series has two records, not 28.
\<close>

theorem splitter_short_series_counterexample:
  "splitter horizon (read_csv panel_cols (daily ''A'' 2))
     = Inr (\<lparr>columns = panel_cols, body = []\<rparr>, read_csv panel_cols (daily ''A'' 2))
   \<and> length (series ''A'' (read_csv panel_cols (daily ''A'' 2))) = 2
   \<and> length (series ''A'' (read_csv panel_cols (daily ''A'' 2))) \<noteq> horizon"
  by (simp add: splitter_result series_daily1)
     (simp add: read_csv_def daily_def panel_cols_def horizon_def reset_index_def cell_of_def upt_rec)

text \<open>
  C4. No insufficient-history error, as the code has it. On every panel that has the
  column \<^verbatim>\<open>unique_id\<close> the split returns. A series of exactly \<open>h + 1\<close> records gets
  an input of length 1 and a holdout of length \<open>h\<close>; a series of \<open>h\<close> records or fewer
  gets an empty input and all of its records in the holdout.
\<close>

theorem splitter_no_history_check:
  assumes "''unique_id'' \<in> set (columns f)" and "distinct (map fst (body f))"
  shows "\<exists>input_df test_df. splitter h f = Inr (input_df, test_df)
       \<and> (length (series sid f) = h + 1 \<longrightarrow>
            length (series sid input_df) = 1 \<and> length (series sid test_df) = h)
       \<and> (length (series sid f) \<le> h \<longrightarrow>
            series sid input_df = [] \<and> series sid test_df = series sid f)"
proof -
  from assms(1) obtain input_df test_df where s: "splitter h f = Inr (input_df, test_df)"
    by (simp add: splitter_result)
  note parts = splitter_series [OF s assms(2), of sid]
  show ?thesis
    using s unfolding parts by (intro exI [of _ input_df] exI [of _ test_df]) (auto simp: parts)
qed

text \<open>
  The theorem at a series of 29 records and horizon 28.
\<close>

theorem splitter_no_history_check_witness:
  "''unique_id'' \<in> set (columns (read_csv panel_cols (daily ''A'' 29)))
   \<and> distinct (map fst (body (read_csv panel_cols (daily ''A'' 29))))
   \<and> length (series ''A'' (read_csv panel_cols (daily ''A'' 29))) = horizon + 1
   \<and> (\<exists>input_df test_df.
        splitter horizon (read_csv panel_cols (daily ''A'' 29)) = Inr (input_df, test_df)
        \<and> length (series ''A'' input_df) = 1
        \<and> length (series ''A'' test_df) = horizon)"
proof -
  let ?f = "read_csv panel_cols (daily ''A'' 29)"
  have c: "''unique_id'' \<in> set (columns ?f)"
    by (simp add: read_csv_def panel_cols_def)
  have d: "distinct (map fst (body ?f))" by (rule distinct_read_csv)
  have l: "length (series ''A'' ?f) = horizon + 1"
    by (simp add: series_daily1 horizon_def)
  from splitter_no_history_check [OF c d, of horizon "''A''"] l
  have "\<exists>input_df test_df. splitter horizon ?f = Inr (input_df, test_df)
        \<and> length (series ''A'' input_df) = 1 \<and> length (series ''A'' test_df) = horizon"
    by auto
  with c d l show ?thesis by blast
qed

text \<open>
  A series of exactly 28 records and horizon 28: the split returns, with an empty input
  and the whole series as holdout.
\<close>

theorem splitter_exact_horizon_counterexample:
  "length (series ''A'' (read_csv panel_cols (daily ''A'' 28))) = horizon
   \<and> splitter horizon (read_csv panel_cols (daily ''A'' 28))
       = Inr (\<lparr>columns = panel_cols, body = []\<rparr>, read_csv panel_cols (daily ''A'' 28))"
proof -
  let ?f = "read_csv panel_cols (daily ''A'' 28)"
  have "\<forall>r\<in>set (body ?f). cell_of (snd r) ''unique_id'' \<noteq> NaN"
    by (auto simp: read_csv_def daily_def dest!: set_zip_rightD)
  moreover have "length (body ?f) \<le> horizon"
    by (simp add: read_csv_def horizon_def)
  ultimately have "tail_rows ''unique_id'' horizon (body ?f) = body ?f"
    by (intro tail_rows_all)
  then show ?thesis
    by (simp add: splitter_result series_daily1 horizon_def)
       (simp add: read_csv_def panel_cols_def reset_index_def)
qed

subsection \<open>Evaluator join\<close>

lemma matches_distinct:
  "distinct (map kf rs) \<Longrightarrow> length (filter (\<lambda>r. kf r = k) rs) \<le> 1"
proof (induction rs)
  case Nil
  then show ?case by simp
next
  case (Cons r rs)
  show ?case
  proof (cases "kf r = k")
    case True
    with Cons.prems have "filter (\<lambda>r. kf r = k) rs = []"
      by (auto simp: filter_empty_conv image_iff)
    with True show ?thesis by simp
  next
    case False
    with Cons show ?thesis by simp
  qed
qed

lemma suffixed_none [simp]: "suffixed [] sfx c = c"
  by (simp add: suffixed_def)

text \<open>When the merge returns, and what.\<close>

lemma merge_left_Inr:
  "merge_left left right on = Inr m \<longleftrightarrow>
     set on \<subseteq> set (columns left) \<inter> set (columns right)
     \<and> \<not> list_ex (kinds_differ left right) on
     \<and> m = \<lparr>columns = map (suffixed (overlap_cols left right on) ''_x'') (columns left)
                       @ map (suffixed (overlap_cols left right on) ''_y'') (other_cols on right),
            body = zip [0..<length (concat (map (join_row left right on) (map snd (body left))))]
                       (concat (map (join_row left right on) (map snd (body left))))\<rparr>"
proof -
  have k: "filter (\<lambda>k. k \<notin> set (columns left) \<or> k \<notin> set (columns right)) on = []
       \<longleftrightarrow> set on \<subseteq> set (columns left) \<inter> set (columns right)"
    by (auto simp: filter_empty_conv)
  show ?thesis
  proof (cases "filter (\<lambda>k. k \<notin> set (columns left) \<or> k \<notin> set (columns right)) on")
    case Nil
    with k have "set on \<subseteq> set (columns left) \<inter> set (columns right)" by simp
    with Nil show ?thesis
      unfolding merge_left_def Let_def by (simp only: list.case) auto
  next
    case (Cons a as)
    with k have "\<not> set on \<subseteq> set (columns left) \<inter> set (columns right)" by simp
    with Cons show ?thesis
      unfolding merge_left_def by (simp only: list.case) simp
  qed
qed

lemma kinds_agree:
  assumes "\<And>i r. (i, r) \<in> set (body left) \<Longrightarrow> kind (cell_of r k) = n"
    and "\<And>i r. (i, r) \<in> set (body right) \<Longrightarrow> kind (cell_of r k) = n"
  shows "\<not> kinds_differ left right k"
  using assms by (auto simp: kinds_differ_def key_cells_def)

lemma join_row_overlap_free:
  assumes "overlap_cols left right on = []"
  shows "join_row left right on l =
     (case matches on right l of
        [] \<Rightarrow> [l @ map (\<lambda>c. (c, NaN)) (other_cols on right)]
      | ms \<Rightarrow> map (\<lambda>r. l @ map (\<lambda>c. (c, cell_of r c)) (other_cols on right)) ms)"
proof -
  have "map (\<lambda>(c, v). (suffixed [] ''_x'' c, v)) l = l" by simp
  then show ?thesis
    unfolding join_row_def Let_def assms
    by (cases "matches on right l") simp_all
qed

lemma join_row_plain:
  assumes "overlap_cols left right on = []"
    and "distinct (map (key_of on) (map snd (body right)))"
  shows "join_row left right on l =
     [l @ (case matches on right l of
             [] \<Rightarrow> map (\<lambda>c. (c, NaN)) (other_cols on right)
           | r # rs \<Rightarrow> map (\<lambda>c. (c, cell_of r c)) (other_cols on right))]"
proof -
  have "length (matches on right l) \<le> 1"
    unfolding matches_def using matches_distinct [of "key_of on" "map snd (body right)" "key_of on l"] assms(2)
    by simp
  then show ?thesis
    using assms(1) by (cases "matches on right l") (auto simp: join_row_def Let_def)
qed

lemma concat_singletons: "concat (map (\<lambda>x. [g x]) xs) = map g xs"
  by (induction xs) auto


lemma overlap_free:
  "set (columns left) \<inter> set (columns right) \<subseteq> set on \<Longrightarrow> overlap_cols left right on = []"
  by (auto simp: overlap_cols_def other_cols_def filter_empty_conv)

lemma merge_left_plain_frame:
  assumes "set on \<subseteq> set (columns left) \<inter> set (columns right)"
    and "\<not> list_ex (kinds_differ left right) on"
    and "set (columns left) \<inter> set (columns right) \<subseteq> set on"
    and "distinct (map (key_of on) (map snd (body right)))"
  shows "merge_left left right on =
     Inr \<lparr>columns = columns left @ other_cols on right,
          body = zip [0..<length (body left)]
            (map (\<lambda>l. l @ (case matches on right l of
                 [] \<Rightarrow> map (\<lambda>c. (c, NaN)) (other_cols on right)
               | r # rs \<Rightarrow> map (\<lambda>c. (c, cell_of r c)) (other_cols on right)))
              (map snd (body left)))\<rparr>"
proof -
  note ov = overlap_free [OF assms(3)]
  let ?g = "\<lambda>l. l @ (case matches on right l of
             [] \<Rightarrow> map (\<lambda>c. (c, NaN)) (other_cols on right)
           | r # rs \<Rightarrow> map (\<lambda>c. (c, cell_of r c)) (other_cols on right))"
  have "join_row left right on = (\<lambda>l. [?g l])"
    by (rule ext) (rule join_row_plain [OF ov assms(4)])
  then have j: "concat (map (join_row left right on) (map snd (body left))) = map ?g (map snd (body left))"
    by (simp only: concat_singletons)
  have s: "map (suffixed [] sfx) cs = cs" for sfx cs
    by (induction cs) simp_all
  show ?thesis
    unfolding merge_left_Inr j ov s using assms(1,2) by simp
qed

lemma join_row_cong:
  assumes "columns right' = columns right" and "matches on right' l = matches on right l"
  shows "join_row left right' on l = join_row left right on l"
proof -
  from assms(1) have o: "other_cols on right' = other_cols on right"
    by (simp add: other_cols_def)
  then have v: "overlap_cols left right' on = overlap_cols left right on"
    by (simp add: overlap_cols_def)
  show ?thesis
    unfolding join_row_def o v assms(2) ..
qed

lemma matches_matched_only:
  assumes "l \<in> set (map snd (body left))"
  shows "matches on (matched_only on left right) l = matches on right l"
proof -
  define K where "K = set (map (key_of on) (map snd (body left)))"
  from assms have k: "key_of on l \<in> K"
    unfolding K_def by (simp only: set_map) (rule imageI)
  have eq: "((case x of (j, r) \<Rightarrow> key_of on r \<in> K) \<and> key_of on (snd x) = key_of on l)
        = (key_of on (snd x) = key_of on l)" for x
    using k by (cases x) auto
  have "filter (\<lambda>r. key_of on (snd r) = key_of on l)
          (filter (\<lambda>(j, r). key_of on r \<in> K) (body right))
        = filter (\<lambda>r. key_of on (snd r) = key_of on l) (body right)"
    by (simp only: filter_filter eq)
  then show ?thesis
    unfolding K_def by (simp add: matches_def matched_only_def filter_map comp_def)
qed

lemma key_cells_matched_only:
  "set (key_cells k (matched_only on left right)) \<subseteq> set (key_cells k right)"
  by (auto simp: key_cells_def matched_only_def)

lemma merge_left_matched_only:
  assumes "merge_left left right on = Inr m"
  shows "merge_left left (matched_only on left right) on = Inr m"
proof -
  have cols: "columns (matched_only on left right) = columns right"
    by (simp add: matched_only_def)
  have o: "other_cols on (matched_only on left right) = other_cols on right"
    by (simp add: other_cols_def cols)
  have v: "overlap_cols left (matched_only on left right) on = overlap_cols left right on"
    by (simp add: overlap_cols_def o)
  have j: "map (join_row left (matched_only on left right) on) (map snd (body left))
      = map (join_row left right on) (map snd (body left))"
    by (intro map_cong refl join_row_cong cols matches_matched_only)
  from assms have nd: "\<not> list_ex (kinds_differ left right) on"
    by (simp add: merge_left_Inr)
  have "\<not> list_ex (kinds_differ left (matched_only on left right)) on"
  proof
    assume "list_ex (kinds_differ left (matched_only on left right)) on"
    then obtain k x y where "k \<in> set on" "x \<in> set (key_cells k left)"
      "y \<in> set (key_cells k (matched_only on left right))" "kind x \<noteq> kind y"
      by (auto simp: list_ex_iff kinds_differ_def)
    with key_cells_matched_only [of k on left right] have "list_ex (kinds_differ left right) on"
      by (auto simp: list_ex_iff kinds_differ_def)
    with nd show False ..
  qed
  with assms show ?thesis
    unfolding merge_left_Inr cols o v j by simp
qed

















subsection \<open>Report aggregator\<close>

lemma and_then_eq_Inr:
  "and_then m g = Inr y \<longleftrightarrow> (\<exists>x. m = Inr x \<and> g x = Inr y)"
  by (cases m) (simp_all add: and_then_def)

lemma traverse_map_of:
  assumes "traverse (\<lambda>k. and_then (h k) (\<lambda>v. Inr (k, v))) ks = Inr table" and "k \<in> set ks"
  shows "\<exists>v. h k = Inr v \<and> map_of table k = Some v"
  using assms
proof (induction ks arbitrary: table)
  case Nil
  then show ?case by simp
next
  case (Cons x xs)
  from Cons.prems(1) obtain v t where hx: "h x = Inr v"
    and t: "traverse (\<lambda>k. and_then (h k) (\<lambda>v. Inr (k, v))) xs = Inr t"
    and tab: "table = (x, v) # t"
    by (auto simp: and_then_eq_Inr)
  show ?case
  proof (cases "k = x")
    case True
    with hx tab show ?thesis by simp
  next
    case False
    with Cons.prems(2) have "k \<in> set xs" by simp
    from Cons.IH [OF t this] False tab show ?thesis by simp
  qed
qed

lemma set_insert_key: "set (insert_key k xs) = insert k (set xs)"
  by (induction xs) auto

lemma set_sort_keys: "set (sort_keys ks) = set ks"
  by (induction ks) (simp_all add: sort_keys_def set_insert_key)

lemma numbers_Inr:
  "numbers cs = Inr vs \<Longrightarrow>
   vs = concat (map (\<lambda>c. case c of Num v \<Rightarrow> [v] | _ \<Rightarrow> []) cs)"
proof (induction cs arbitrary: vs)
  case Nil
  then show ?case by simp
next
  case (Cons c cs)
  then show ?case by (cases c) (auto simp: and_then_eq_Inr)
qed

lemma length_present_le:
  "length (concat (map (\<lambda>r. case g r of Num v \<Rightarrow> [v] | _ \<Rightarrow> []) rs)) \<le> length rs"
  by (induction rs) (auto split: cell.splits)

lemma length_present_less:
  "\<exists>r\<in>set rs. g r = NaN \<Longrightarrow>
   length (concat (map (\<lambda>r. case g r of Num v \<Rightarrow> [v] | _ \<Rightarrow> []) rs)) < length rs"
proof (induction rs)
  case Nil
  then show ?case by simp
next
  case (Cons r rs)
  show ?case
  proof (cases "g r = NaN")
    case True
    with length_present_le [of g rs] show ?thesis by simp
  next
    case False
    with Cons have "length (concat (map (\<lambda>r. case g r of Num v \<Rightarrow> [v] | _ \<Rightarrow> []) rs)) < length rs"
      by auto
    then show ?thesis by (auto split: cell.splits)
  qed
qed

text \<open>
  C7. Report aggregator. The summary maps a metric and a model to the arithmetic mean of
  the numbers in the model's column over the rows of that metric, one row per series.
  A missing value is left out of the mean: the mean is over the present values only
  (\<open>NaN\<close> when there is none), and when a value is missing and the present ones do not
  sum to zero it differs from the mean taken with zero in place of the missing value.
\<close>

theorem summarize_skips_missing:
  assumes "summarize ev models = Inr table"
    and "model \<in> set models"
    and "group_rows ''metric'' (Str metric) ev \<noteq> []"
  shows "aggregate table metric model =
           Some (if present ev metric model = [] then NaN
                 else Num (sum_list (present ev metric model)
                           / real (length (present ev metric model))))
       \<and> ((\<exists>r\<in>set (group_rows ''metric'' (Str metric) ev). cell_of r model = NaN)
            \<and> sum_list (present ev metric model) \<noteq> 0 \<longrightarrow>
          aggregate table metric model \<noteq>
            Some (Num (sum_list (present ev metric model)
                       / real (length (group_rows ''metric'' (Str metric) ev)))))"
proof -
  let ?rows = "group_rows ''metric'' (Str metric) ev"
  let ?h = "\<lambda>key. traverse (\<lambda>c.
                and_then (mean (map (\<lambda>r. cell_of r c) (group_rows ''metric'' key ev)))
                  (\<lambda>v. Inr (c, v))) models"
  from assms(1) have tr: "traverse (\<lambda>key. and_then (?h key) (\<lambda>cells. Inr (key, cells)))
       (group_keys ''metric'' ev) = Inr table"
    by (auto simp: summarize_def groupby_mean_def split: list.splits)
  from assms(3) obtain r where "r \<in> set (map snd (body ev))" "cell_of r ''metric'' = Str metric"
    unfolding group_rows_def by (auto simp: filter_empty_conv)
  then have "Str metric \<in> set (group_keys ''metric'' ev)"
    by (force simp: group_keys_def set_sort_keys)
  from traverse_map_of [OF tr this] obtain cells where
    c: "?h (Str metric) = Inr cells" and m: "map_of table (Str metric) = Some cells"
    by blast
  from traverse_map_of [OF c assms(2)] obtain v where
    v: "mean (map (\<lambda>r. cell_of r model) ?rows) = Inr v" and mc: "map_of cells model = Some v"
    by blast
  from v obtain vs where n: "numbers (map (\<lambda>r. cell_of r model) ?rows) = Inr vs"
    and vv: "v = (if vs = [] then NaN else Num (sum_list vs / real (length vs)))"
    by (auto simp: mean_def and_then_eq_Inr)
  from numbers_Inr [OF n] have "vs = present ev metric model"
    by (simp add: present_def comp_def)
  with vv m mc have val: "aggregate table metric model =
           Some (if present ev metric model = [] then NaN
                 else Num (sum_list (present ev metric model)
                           / real (length (present ev metric model))))"
    by (simp add: aggregate_def)
  have "aggregate table metric model \<noteq>
            Some (Num (sum_list (present ev metric model) / real (length ?rows)))"
    if gap: "\<exists>r\<in>set ?rows. cell_of r model = NaN"
      and nz: "sum_list (present ev metric model) \<noteq> 0"
  proof -
    from nz have ne: "present ev metric model \<noteq> []" by auto
    from length_present_less [OF gap]
    have lt: "length (present ev metric model) < length ?rows"
      by (simp add: present_def)
    from ne have pos: "0 < length (present ev metric model)" by simp
    from lt pos nz have "sum_list (present ev metric model) / real (length (present ev metric model))
        \<noteq> sum_list (present ev metric model) / real (length ?rows)"
      by (simp add: field_simps)
    with val ne show ?thesis by simp
  qed
  with val show ?thesis by blast
qed

text \<open>
  The theorem at the example: the mean of \<^verbatim>\<open>TSB\<close> is 2, the value of the one series
  that has one, not \<open>(2 + 0) / 2\<close>.
\<close>

theorem summarize_skips_missing_witness:
  "summarize evaluation_example [''TimeGPT'', ''TSB'']
     = Inr [(Str ''mae'', [(''TimeGPT'', Num 2), (''TSB'', Num 2)])]
   \<and> ''TSB'' \<in> set [''TimeGPT'', ''TSB'']
   \<and> group_rows ''metric'' (Str ''mae'') evaluation_example \<noteq> []
   \<and> present evaluation_example ''mae'' ''TSB'' = [2]
   \<and> aggregate [(Str ''mae'', [(''TimeGPT'', Num 2), (''TSB'', Num 2)])] ''mae'' ''TSB''
       = Some (Num 2)
   \<and> aggregate [(Str ''mae'', [(''TimeGPT'', Num 2), (''TSB'', Num 2)])] ''mae'' ''TSB''
       \<noteq> Some (Num (2 / 2))"
proof -
  have s: "summarize evaluation_example [''TimeGPT'', ''TSB'']
     = Inr [(Str ''mae'', [(''TimeGPT'', Num 2), (''TSB'', Num 2)])]"
    by (simp add: summarize_def groupby_mean_def evaluation_example_def group_keys_def
        sort_keys_def group_rows_def cell_of_def mean_def)
  have m: "''TSB'' \<in> set [''TimeGPT'', ''TSB'']" by simp
  have g: "group_rows ''metric'' (Str ''mae'') evaluation_example \<noteq> []"
    by (simp add: evaluation_example_def group_rows_def cell_of_def)
  have p: "present evaluation_example ''mae'' ''TSB'' = [2]"
    by (simp add: present_def evaluation_example_def group_rows_def cell_of_def)
  have n: "\<exists>r\<in>set (group_rows ''metric'' (Str ''mae'') evaluation_example). cell_of r ''TSB'' = NaN"
    by (simp add: evaluation_example_def group_rows_def cell_of_def)
  have l: "length (group_rows ''metric'' (Str ''mae'') evaluation_example) = 2"
    by (simp add: evaluation_example_def group_rows_def cell_of_def)
  from summarize_skips_missing [OF s m g] n
  have "aggregate [(Str ''mae'', [(''TimeGPT'', Num 2), (''TSB'', Num 2)])] ''mae'' ''TSB''
       = Some (Num 2)
     \<and> aggregate [(Str ''mae'', [(''TimeGPT'', Num 2), (''TSB'', Num 2)])] ''mae'' ''TSB''
       \<noteq> Some (Num (2 / 2))"
    unfolding p l by simp
  with s m g p show ?thesis by blast
qed

subsection \<open>Ownership of the panel\<close>

lemma exec_keeps:
  assumes "exec c s = Inr s'" and "target c \<noteq> ''df''"
    and "a < next_addr s" and "\<forall>v. vars s v = Some a \<longrightarrow> v = ''df''"
  shows "heap s' a = heap s a \<and> vars s' ''df'' = vars s ''df''
       \<and> a < next_addr s' \<and> (\<forall>v. vars s' v = Some a \<longrightarrow> v = ''df'')"
proof (cases c)
  case (Assign v e)
  with assms(1) obtain x where
    "s' = s\<lparr>vars := (vars s)(v \<mapsto> next_addr s), heap := (heap s)(next_addr s \<mapsto> x),
            next_addr := Suc (next_addr s)\<rparr>"
    by (auto simp: and_then_eq_Inr)
  with assms(2-4) Assign show ?thesis by auto
next
  case (Update v e)
  with assms(1) obtain change where
    r: "(case vars s v of
           None \<Rightarrow> Inl (NameError v)
         | Some a \<Rightarrow>
             (case heap s a of
                Some (Frame f) \<Rightarrow>
                  and_then (change f) (\<lambda>f'. Inr (s\<lparr>heap := (heap s)(a \<mapsto> Frame f')\<rparr>))
              | _ \<Rightarrow> Inl TypeError)) = Inr s'"
    by (auto simp: and_then_eq_Inr)
  then obtain b where b: "vars s v = Some b"
    by (cases "vars s v") auto
  with r obtain f where
    "and_then (change f) (\<lambda>f'. Inr (s\<lparr>heap := (heap s)(b \<mapsto> Frame f')\<rparr>)) = Inr s'"
    by (cases "heap s b") (auto split: obj.splits)
  then obtain f' where s': "s' = s\<lparr>heap := (heap s)(b \<mapsto> Frame f')\<rparr>"
    by (auto simp: and_then_eq_Inr)
  from assms(2,4) Update b have "b \<noteq> a" by auto
  with s' assms(3,4) show ?thesis by auto
qed

lemma run_keeps:
  assumes "\<forall>c\<in>set cs. target c \<noteq> ''df''"
    and "a < next_addr s" and "\<forall>v. vars s v = Some a \<longrightarrow> v = ''df''"
  shows "heap (fst (run cs s)) a = heap s a \<and> vars (fst (run cs s)) ''df'' = vars s ''df''"
  using assms
proof (induction cs arbitrary: s)
  case Nil
  then show ?case by simp
next
  case (Cons c cs)
  show ?case
  proof (cases "exec c s")
    case (Inl e)
    then show ?thesis by simp
  next
    case (Inr s')
    from Cons.prems have t: "target c \<noteq> ''df''" by simp
    note k = exec_keeps [OF Inr t Cons.prems(2,3)]
    from Cons.prems(1) have "\<forall>c\<in>set cs. target c \<noteq> ''df''" by simp
    from Cons.IH [OF this] k Inr show ?thesis by simp
  qed
qed

text \<open>
  The two split statements of the notebook compute \<open>splitter horizon\<close> of the
  transformed panel.
\<close>

lemma split_statements:
  assumes "vars s ''df_transformed'' = Some a" and "heap s a = Some (Frame d)"
    and "a < next_addr s"
    and "splitter horizon d = Inr (input_df, test_df)"
  shows "snd (run (drop 2 transform_and_split) s) = None
       \<and> frame_of (fst (run (drop 2 transform_and_split) s)) ''test_df'' = Inr test_df
       \<and> frame_of (fst (run (drop 2 transform_and_split) s)) ''input_df'' = Inr input_df"
proof -
  from assms(4) obtain rest where t: "groupby_tail ''unique_id'' horizon d = Inr test_df"
    and r: "drop_labels (map fst (body test_df)) d = Inr rest"
    and i: "input_df = reset_index rest"
    by (auto simp: splitter_def and_then_eq_Inr)
  from assms(3) have n: "next_addr s \<noteq> a" "Suc (next_addr s) \<noteq> a" by simp_all
  show ?thesis
    using assms(1,2) n by (simp add: transform_and_split_def frame_of_def new_frame_def t r i)
qed

lemma loaded_vars:
  "vars (loaded W) = (\<lambda>v. None)(''df'' \<mapsto> 0) \<and> next_addr (loaded W) = 1"
  by (simp add: loaded_def load_def empty_notebook_def split: sum.splits)
     (auto simp: and_then_eq_Inr split: sum.splits)

lemma pipeline_targets: "\<forall>c\<in>set (pipeline W). target c \<noteq> ''df''"
  by (simp add: pipeline_def transform_and_split_def timegen_cells_def statsforecast_cells_def
      exogenous_cells_def evaluation_cells_def)

text \<open>
  C8. The raw panel is read-only. After the panel is loaded, no statement of the
  pipeline changes the object \<^verbatim>\<open>df\<close> names or rebinds the name: at every point of the
  run (after any number \<open>n\<close> of statements, whether or not a statement raised), \<^verbatim>\<open>df\<close>
  holds the frame it held when loaded. The transform works on \<^verbatim>\<open>df.copy()\<close>, a new
  object, and every later mutation is of \<^verbatim>\<open>df_transformed\<close>, \<^verbatim>\<open>fcst_df\<close>,
  \<^verbatim>\<open>sf_preds\<close> or \<^verbatim>\<open>test_df\<close>.
\<close>

theorem panel_read_only:
  "frame_of (fst (run (take n (pipeline W)) (loaded W))) ''df'' = frame_of (loaded W) ''df''"
proof -
  have t: "\<forall>c\<in>set (take n (pipeline W)). target c \<noteq> ''df''"
    using pipeline_targets [of W] by (meson in_set_takeD)
  have a: "(0::nat) < next_addr (loaded W)"
    by (simp add: loaded_vars)
  have o: "\<forall>v. vars (loaded W) v = Some 0 \<longrightarrow> v = ''df''"
    by (simp add: loaded_vars)
  have d: "vars (loaded W) ''df'' = Some 0"
    by (simp add: loaded_vars)
  from run_keeps [OF t a o] d show ?thesis
    by (simp add: frame_of_def)
qed

subsection \<open>Running the notebook on a constant series\<close>

lemma traverse_all:
  "(\<And>x. x \<in> set xs \<Longrightarrow> g x = Inr (h x)) \<Longrightarrow> traverse g xs = Inr (map h xs)"
  by (induction xs) simp_all

lemma apply_col_rows:
  assumes "c \<in> set (columns f)"
    and "\<And>i r. (i, r) \<in> set (body f) \<Longrightarrow> g (cell_of r c) = Inr (h r)"
  shows "apply_col g c f = Inr (f\<lparr>body := map (\<lambda>(i, r). (i, put_cell c (h r) r)) (body f)\<rparr>)"
proof -
  have "traverse g (map (\<lambda>(i, r). cell_of r c) (body f)) = Inr (map (\<lambda>(i, r). h r) (body f))"
  proof -
    have "traverse (\<lambda>x. g (case x of (i, r) \<Rightarrow> cell_of r c)) (body f)
            = Inr (map (\<lambda>(i, r). h r) (body f))"
      by (rule traverse_all) (use assms(2) in auto)
    moreover have "traverse g (map k xs) = traverse (\<lambda>x. g (k x)) xs" for k :: "nat \<times> row \<Rightarrow> cell" and xs
      by (induction xs) simp_all
    ultimately show ?thesis by simp
  qed
  moreover have "map (\<lambda>((i, r), v). (i, put_cell c v r)) (zip xs (map (\<lambda>(i, r). h r) xs))
      = map (\<lambda>(i, r). (i, put_cell c (h r) r)) xs" for xs :: "(nat \<times> row) list"
    by (induction xs) auto
  ultimately show ?thesis
    using assms(1) by (simp add: apply_col_def get_col_def set_col_def)
qed

lemma tail_rows_same_key:
  "\<forall>r\<in>set rs. cell_of (snd r) k = key \<Longrightarrow> key \<noteq> NaN \<Longrightarrow>
   tail_rows k n rs = drop (length rs - n) rs"
proof (induction rs)
  case Nil
  then show ?case by simp
next
  case (Cons r rs)
  then have "filter (\<lambda>s. cell_of (snd s) k = cell_of (snd r) k) rs = rs"
    by (auto simp: filter_id_conv)
  with Cons show ?case by (auto simp: Suc_diff_le)
qed

lemma filter_eq_upt:
  "filter (\<lambda>u. u = t) [a..<b] = (if a \<le> t \<and> t < b then [t] else [])"
proof (induction b)
  case 0
  then show ?case by simp
next
  case (Suc b)
  then show ?case by (auto simp: filter_empty_conv)
qed

lemma remdups_const: "xs \<noteq> [] \<Longrightarrow> remdups (map (\<lambda>x. c) xs) = [c]"
proof (induction xs)
  case Nil
  then show ?case by simp
next
  case (Cons x xs)
  show ?case
  proof (cases "xs = []")
    case True
    then show ?thesis by simp
  next
    case False
    then have "c \<in> set (map (\<lambda>x. c) xs)" by (cases xs) simp_all
    with Cons False show ?thesis by simp
  qed
qed

lemma numbers_const: "numbers (map (\<lambda>x. Num v) xs) = Inr (map (\<lambda>x. v) xs)"
  by (induction xs) simp_all

lemma mean_const: "xs \<noteq> [] \<Longrightarrow> mean (map (\<lambda>x. Num v) xs) = Inr (Num v)"
  by (simp add: mean_def numbers_const sum_list_triv)

lemma raw_panel:
  "read_csv panel_cols (daily ''A'' 29) = \<lparr>columns = panel_cols, body = day_rows (Num 1) 0 29\<rparr>"
  by (simp add: read_csv_def daily_def day_rows_def zip_map2 zip_same_conv_map)

lemma cell_of_day_row [simp]:
  "cell_of [(''unique_id'', a), (''ds'', b), (''y'', c)] ''unique_id'' = a"
  "cell_of [(''unique_id'', a), (''ds'', b), (''y'', c)] ''ds'' = b"
  "cell_of [(''unique_id'', a), (''ds'', b), (''y'', c)] ''y'' = c"
  by (simp_all add: cell_of_def)

lemma put_cell_day_row [simp]:
  "put_cell ''ds'' v [(''unique_id'', a), (''ds'', b), (''y'', c)]
     = [(''unique_id'', a), (''ds'', v), (''y'', c)]"
  "put_cell ''y'' v [(''unique_id'', a), (''ds'', b), (''y'', c)]
     = [(''unique_id'', a), (''ds'', b), (''y'', v)]"
  by (simp_all add: put_cell_def)

lemma dates_panel:
  "apply_col (to_datetime p) ''ds'' \<lparr>columns = panel_cols, body = day_rows y 0 29\<rparr>
     = Inr \<lparr>columns = panel_cols, body = day_rows y 0 29\<rparr>"
proof -
  let ?f = "\<lparr>columns = panel_cols, body = day_rows y 0 29\<rparr>"
  have "apply_col (to_datetime p) ''ds'' ?f
      = Inr (?f\<lparr>body := map (\<lambda>(i, r). (i, put_cell ''ds'' (cell_of r ''ds'') r)) (body ?f)\<rparr>)"
    by (rule apply_col_rows) (auto simp: panel_cols_def day_rows_def)
  then show ?thesis by (simp add: day_rows_def)
qed

lemma log_panel:
  "log_transform \<lparr>columns = panel_cols, body = day_rows (Num 1) 0 29\<rparr>
     = Inr \<lparr>columns = panel_cols, body = day_rows (Num (ln 2)) 0 29\<rparr>"
proof -
  let ?f = "\<lparr>columns = panel_cols, body = day_rows (Num 1) 0 29\<rparr>"
  have "apply_col np_log_plus_one ''y'' ?f
      = Inr (?f\<lparr>body := map (\<lambda>(i, r). (i, put_cell ''y'' (Num (ln 2)) r)) (body ?f)\<rparr>)"
    by (rule apply_col_rows) (auto simp: panel_cols_def day_rows_def)
  then show ?thesis by (simp add: log_transform_def day_rows_def)
qed

lemma tail_panel:
  "groupby_tail ''unique_id'' horizon \<lparr>columns = panel_cols, body = day_rows y 0 29\<rparr>
     = Inr \<lparr>columns = panel_cols, body = day_rows y 1 29\<rparr>"
proof -
  have "tail_rows ''unique_id'' horizon (day_rows y 0 29) = drop (length (day_rows y 0 29) - horizon) (day_rows y 0 29)"
    by (rule tail_rows_same_key [where key = "Str ''A''"]) (auto simp: day_rows_def)
  also have "\<dots> = day_rows y 1 29"
    by (simp add: day_rows_def horizon_def drop_map)
  finally show ?thesis
    by (simp add: groupby_tail_def panel_cols_def)
qed

lemma rest_panel:
  "drop_labels (map fst (day_rows y 1 29)) \<lparr>columns = panel_cols, body = day_rows y 0 29\<rparr>
     = Inr \<lparr>columns = panel_cols, body = day_rows y 0 1\<rparr>"
proof -
  have "filter (\<lambda>r. fst r \<notin> set (map fst (day_rows y 1 29))) (day_rows y 0 29) = day_rows y 0 1"
  proof -
    have "filter (\<lambda>t. \<not> (1 \<le> t \<and> t < 29)) [0..<29] = [0::nat]"
      by (simp add: upt_rec)
    then show ?thesis
      by (simp add: day_rows_def filter_map comp_def image_iff)
  qed
  then show ?thesis
    by (auto simp: drop_labels_def day_rows_def)
qed

lemma reset_input:
  "reset_index \<lparr>columns = panel_cols, body = day_rows y 0 1\<rparr>
     = \<lparr>columns = panel_cols, body = day_rows y 0 1\<rparr>"
  by (simp add: reset_index_def day_rows_def)

lemma cell_of_forecast_row [simp]:
  "cell_of [(''unique_id'', a), (''ds'', b), (''TimeGPT'', c), (''TimeGPT-lo-80'', d), (''TimeGPT-hi-80'', e)] ''unique_id'' = a"
  "cell_of [(''unique_id'', a), (''ds'', b), (''TimeGPT'', c), (''TimeGPT-lo-80'', d), (''TimeGPT-hi-80'', e)] ''ds'' = b"
  "cell_of [(''unique_id'', a), (''ds'', b), (''TimeGPT'', c), (''TimeGPT-lo-80'', d), (''TimeGPT-hi-80'', e)] ''TimeGPT'' = c"
  "cell_of [(''unique_id'', a), (''ds'', b), (''TimeGPT'', c), (''TimeGPT-lo-80'', d), (''TimeGPT-hi-80'', e)] ''TimeGPT-lo-80'' = d"
  "cell_of [(''unique_id'', a), (''ds'', b), (''TimeGPT'', c), (''TimeGPT-lo-80'', d), (''TimeGPT-hi-80'', e)] ''TimeGPT-hi-80'' = e"
  by (simp_all add: cell_of_def)

lemma put_cell_forecast_row [simp]:
  "put_cell ''ds'' v [(''unique_id'', a), (''ds'', b), (''TimeGPT'', c), (''TimeGPT-lo-80'', d), (''TimeGPT-hi-80'', e)]
     = [(''unique_id'', a), (''ds'', v), (''TimeGPT'', c), (''TimeGPT-lo-80'', d), (''TimeGPT-hi-80'', e)]"
  "put_cell ''TimeGPT'' v [(''unique_id'', a), (''ds'', b), (''TimeGPT'', c), (''TimeGPT-lo-80'', d), (''TimeGPT-hi-80'', e)]
     = [(''unique_id'', a), (''ds'', b), (''TimeGPT'', v), (''TimeGPT-lo-80'', d), (''TimeGPT-hi-80'', e)]"
  "put_cell ''TimeGPT-lo-80'' v [(''unique_id'', a), (''ds'', b), (''TimeGPT'', c), (''TimeGPT-lo-80'', d), (''TimeGPT-hi-80'', e)]
     = [(''unique_id'', a), (''ds'', b), (''TimeGPT'', c), (''TimeGPT-lo-80'', v), (''TimeGPT-hi-80'', e)]"
  "put_cell ''TimeGPT-hi-80'' v [(''unique_id'', a), (''ds'', b), (''TimeGPT'', c), (''TimeGPT-lo-80'', d), (''TimeGPT-hi-80'', e)]
     = [(''unique_id'', a), (''ds'', b), (''TimeGPT'', c), (''TimeGPT-lo-80'', d), (''TimeGPT-hi-80'', v)]"
  by (simp_all add: put_cell_def)

lemma exp_forecast_col:
  assumes "c \<in> set forecast_cols"
    and "\<And>t. np_exp_minus_one (cell_of [(''unique_id'', Str ''A''), (''ds'', Time (int t)),
            (''TimeGPT'', p), (''TimeGPT-lo-80'', lo), (''TimeGPT-hi-80'', hi)] c) = Inr v"
  shows "apply_col np_exp_minus_one c \<lparr>columns = forecast_cols, body = forecast_rows p lo hi\<rparr>
     = Inr \<lparr>columns = forecast_cols,
            body = map (\<lambda>(i, r). (i, put_cell c v r)) (forecast_rows p lo hi)\<rparr>"
proof -
  let ?f = "\<lparr>columns = forecast_cols, body = forecast_rows p lo hi\<rparr>"
  have "apply_col np_exp_minus_one c ?f
      = Inr (?f\<lparr>body := map (\<lambda>(i, r). (i, put_cell c v r)) (body ?f)\<rparr>)"
    by (rule apply_col_rows) (use assms in \<open>auto simp: forecast_rows_def\<close>)
  then show ?thesis by simp
qed

lemma inverse_forecast:
  "inverse_loop \<lparr>columns = forecast_cols, body = forecast_rows (Num (ln 2)) (Num (ln 2)) (Num (ln 2))\<rparr>
     = Inr \<lparr>columns = forecast_cols, body = forecast_rows (Num 1) (Num 1) (Num 1)\<rparr>"
proof -
  have v: "value_cols \<lparr>columns = forecast_cols, body = b\<rparr>
       = [''TimeGPT'', ''TimeGPT-lo-80'', ''TimeGPT-hi-80'']" for b
    by (simp add: value_cols_def forecast_cols_def)
  have 1: "apply_col np_exp_minus_one ''TimeGPT''
        \<lparr>columns = forecast_cols, body = forecast_rows (Num (ln 2)) (Num (ln 2)) (Num (ln 2))\<rparr>
      = Inr \<lparr>columns = forecast_cols, body = forecast_rows (Num 1) (Num (ln 2)) (Num (ln 2))\<rparr>"
    by (subst exp_forecast_col [where v = "Num 1"])
       (simp_all add: forecast_cols_def forecast_rows_def)
  have 2: "apply_col np_exp_minus_one ''TimeGPT-lo-80''
        \<lparr>columns = forecast_cols, body = forecast_rows (Num 1) (Num (ln 2)) (Num (ln 2))\<rparr>
      = Inr \<lparr>columns = forecast_cols, body = forecast_rows (Num 1) (Num 1) (Num (ln 2))\<rparr>"
    by (subst exp_forecast_col [where v = "Num 1"])
       (simp_all add: forecast_cols_def forecast_rows_def)
  have 3: "apply_col np_exp_minus_one ''TimeGPT-hi-80''
        \<lparr>columns = forecast_cols, body = forecast_rows (Num 1) (Num 1) (Num (ln 2))\<rparr>
      = Inr \<lparr>columns = forecast_cols, body = forecast_rows (Num 1) (Num 1) (Num 1)\<rparr>"
    by (subst exp_forecast_col [where v = "Num 1"])
       (simp_all add: forecast_cols_def forecast_rows_def)
  show ?thesis
    by (simp add: inverse_loop_def v 1 2 3)
qed

lemma dates_forecast:
  "apply_col (to_datetime q) ''ds'' \<lparr>columns = forecast_cols, body = forecast_rows p lo hi\<rparr>
     = Inr \<lparr>columns = forecast_cols, body = forecast_rows p lo hi\<rparr>"
proof -
  let ?f = "\<lparr>columns = forecast_cols, body = forecast_rows p lo hi\<rparr>"
  have "apply_col (to_datetime q) ''ds'' ?f
      = Inr (?f\<lparr>body := map (\<lambda>(i, r). (i, put_cell ''ds'' (cell_of r ''ds'') r)) (body ?f)\<rparr>)"
    by (rule apply_col_rows) (auto simp: forecast_cols_def forecast_rows_def)
  then show ?thesis by (simp add: forecast_rows_def)
qed

lemma zip_shifted: "zip [0..<n] (map f [1..<Suc n]) = map (\<lambda>t. (t - 1, f t)) [1..<Suc n]"
proof -
  have "[1..<Suc n] = map Suc [0..<n]"
    by (simp add: map_Suc_upt)
  then show ?thesis
    by (simp add: zip_map2 zip_same_conv_map comp_def)
qed

lemma matches_forecast:
  assumes "1 \<le> t" and "t < 29"
  shows "matches join_key \<lparr>columns = forecast_cols, body = forecast_rows p lo hi\<rparr>
           [(''unique_id'', Str ''A''), (''ds'', Time (int t)), (''y'', y)]
         = [[(''unique_id'', Str ''A''), (''ds'', Time (int t)), (''TimeGPT'', p),
             (''TimeGPT-lo-80'', lo), (''TimeGPT-hi-80'', hi)]]"
proof -
  have "filter (\<lambda>u. u = t) [1..<29] = [t]"
    using assms by (simp add: filter_eq_upt)
  then show ?thesis
    by (simp add: matches_def forecast_rows_def join_key_def key_of_def filter_map comp_def)
qed

lemma merge_forecast:
  "merge_left \<lparr>columns = panel_cols, body = day_rows (Num (ln 2)) 1 29\<rparr>
      \<lparr>columns = forecast_cols, body = forecast_rows (Num 1) (Num 1) (Num 1)\<rparr> join_key
     = Inr \<lparr>columns = scored_cols, body = scored_rows\<rparr>"
proof -
  let ?l = "\<lparr>columns = panel_cols, body = day_rows (Num (ln 2)) 1 29\<rparr>"
  let ?r = "\<lparr>columns = forecast_cols, body = forecast_rows (Num 1) (Num 1) (Num 1)\<rparr>"
  have a: "set join_key \<subseteq> set (columns ?l) \<inter> set (columns ?r)"
    by (simp add: join_key_def panel_cols_def forecast_cols_def)
  have b: "set (columns ?l) \<inter> set (columns ?r) \<subseteq> set join_key"
    by (simp add: join_key_def panel_cols_def forecast_cols_def)
  have "\<not> kinds_differ ?l ?r ''unique_id''"
    by (rule kinds_agree [where n = 2]) (auto simp: day_rows_def forecast_rows_def)
  moreover have "\<not> kinds_differ ?l ?r ''ds''"
    by (rule kinds_agree [where n = 1]) (auto simp: day_rows_def forecast_rows_def)
  ultimately have k: "\<not> list_ex (kinds_differ ?l ?r) join_key"
    by (simp add: join_key_def)
  have "inj_on (\<lambda>t. [Str ''A'', Time (int t)]) (set [1..<29])"
    by (rule inj_onI) simp
  then have c: "distinct (map (key_of join_key) (map snd (body ?r)))"
    by (simp add: forecast_rows_def key_of_def join_key_def comp_def distinct_map)
  have o: "other_cols join_key ?r = [''TimeGPT'', ''TimeGPT-lo-80'', ''TimeGPT-hi-80'']"
    by (simp add: other_cols_def join_key_def forecast_cols_def)
  have rows: "map (\<lambda>l. l @ (case matches join_key ?r l of
                 [] \<Rightarrow> map (\<lambda>c. (c, NaN)) (other_cols join_key ?r)
               | r # rs \<Rightarrow> map (\<lambda>c. (c, cell_of r c)) (other_cols join_key ?r)))
              (map snd (body ?l))
        = map (\<lambda>t. [(''unique_id'', Str ''A''), (''ds'', Time (int t)), (''y'', Num (ln 2)),
                     (''TimeGPT'', Num 1), (''TimeGPT-lo-80'', Num 1), (''TimeGPT-hi-80'', Num 1)])
            [1..<Suc 28]"
    unfolding o by (simp add: day_rows_def comp_def matches_forecast)
  have len: "length (body ?l) = 28"
    by (simp add: day_rows_def)
  show ?thesis
    unfolding merge_left_plain_frame [OF a k b c] rows len zip_shifted
    by (simp add: scored_cols_def scored_rows_def o)
qed

lemma abs_one_minus_ln2: "\<bar>1 - ln (2::real)\<bar> = 1 - ln 2"
  using ln_2_less_1 by simp

lemma evaluate_scored:
  "evaluate \<lparr>columns = scored_cols, body = scored_rows\<rparr> [''TimeGPT''] ''y'' ''unique_id''
     = Inr \<lparr>columns = [''unique_id'', ''metric'', ''TimeGPT''],
            body = [(0, [(''unique_id'', Str ''A''), (''metric'', Str ''mae''),
                         (''TimeGPT'', Num (1 - ln 2))])]\<rparr>"
proof -
  let ?f = "\<lparr>columns = scored_cols, body = scored_rows\<rparr>"
  define e where "e = \<lparr>columns = [''unique_id'', ''TimeGPT''],
            body = map (\<lambda>(i, r). (i, [(''unique_id'', Str ''A''), (''TimeGPT'', Num (1 - ln 2))]))
                     scored_rows\<rparr>"
  have cells: "cell_of [(''unique_id'', a), (''ds'', b), (''y'', c), (''TimeGPT'', d),
                  (''TimeGPT-lo-80'', lo), (''TimeGPT-hi-80'', hi)] ''unique_id'' = a"
    "cell_of [(''unique_id'', a), (''ds'', b), (''y'', c), (''TimeGPT'', d),
                  (''TimeGPT-lo-80'', lo), (''TimeGPT-hi-80'', hi)] ''y'' = c"
    "cell_of [(''unique_id'', a), (''ds'', b), (''y'', c), (''TimeGPT'', d),
                  (''TimeGPT-lo-80'', lo), (''TimeGPT-hi-80'', hi)] ''TimeGPT'' = d"
    for a b c d lo hi
    by (simp_all add: cell_of_def)
  have "traverse (\<lambda>(i, r).
              and_then (traverse (\<lambda>m.
                  and_then (abs_error (cell_of r ''y'') (cell_of r m)) (\<lambda>e. Inr (m, e)))
                [''TimeGPT''])
                (\<lambda>cells. Inr (i, (''unique_id'', cell_of r ''unique_id'') # cells)))
            scored_rows
        = Inr (map (\<lambda>(i, r). (i, [(''unique_id'', Str ''A''), (''TimeGPT'', Num (1 - ln 2))])) scored_rows)"
    by (rule traverse_all) (auto simp: scored_rows_def cells abs_one_minus_ln2)
  then have errs: "abs_errors ?f [''TimeGPT''] ''unique_id'' ''y'' = Inr e"
    by (simp add: abs_errors_def scored_cols_def panel_cols_def e_def)
  have cells2: "cell_of [(''unique_id'', a), (''TimeGPT'', d)] ''unique_id'' = a"
    "cell_of [(''unique_id'', a), (''TimeGPT'', d)] ''TimeGPT'' = d" for a d
    by (simp_all add: cell_of_def)
  have ne: "scored_rows \<noteq> []"
    by (simp add: scored_rows_def)
  have cols: "columns e = [''unique_id'', ''TimeGPT'']"
    by (simp add: e_def)
  have keys: "group_keys ''unique_id'' e = [Str ''A'']"
    using ne by (simp add: group_keys_def e_def comp_def case_prod_beta cells2 remdups_const sort_keys_def)
  have "map (\<lambda>r. cell_of r ''TimeGPT'') (group_rows ''unique_id'' (Str ''A'') e)
        = map (\<lambda>x. Num (1 - ln 2)) scored_rows"
    by (simp add: group_rows_def e_def comp_def case_prod_beta cells2)
  then have m: "mean (map (\<lambda>r. cell_of r ''TimeGPT'') (group_rows ''unique_id'' (Str ''A'') e))
        = Inr (Num (1 - ln 2))"
    using mean_const [OF ne, of "1 - ln 2"] by simp
  have "groupby_mean ''unique_id'' [''TimeGPT''] e
        = Inr [(Str ''A'', [(''TimeGPT'', Num (1 - ln 2))])]"
    unfolding groupby_mean_def keys cols by (simp add: m)
  with errs show ?thesis
    by (simp add: evaluate_def mae_def)
qed

lemma summarize_scored:
  "summarize \<lparr>columns = [''unique_id'', ''metric'', ''TimeGPT''],
            body = [(0, [(''unique_id'', Str ''A''), (''metric'', Str ''mae''),
                         (''TimeGPT'', Num v)])]\<rparr> [''TimeGPT'']
     = Inr [(Str ''mae'', [(''TimeGPT'', Num v)])]"
  by (simp add: summarize_def groupby_mean_def group_keys_def sort_keys_def group_rows_def
      cell_of_def mean_def)

lemma stages:
  "read_csv panel_cols (daily ''A'' 29) = panel29"
  "apply_col (to_datetime p) ''ds'' panel29 = Inr panel29"
  "log_transform panel29 = Inr panel29_log"
  "groupby_tail ''unique_id'' horizon panel29_log = Inr holdout28"
  "drop_labels (map fst (body holdout28)) panel29_log = Inr input1"
  "reset_index input1 = input1"
  "inverse_loop (forecast28 (Num (ln 2))) = Inr (forecast28 (Num 1))"
  "apply_col (to_datetime p) ''ds'' (forecast28 v) = Inr (forecast28 v)"
  "merge_left holdout28 (forecast28 (Num 1)) join_key = Inr scored28"
  "evaluate scored28 [''TimeGPT''] ''y'' ''unique_id'' = Inr evaluation1"
  "summarize evaluation1 [''TimeGPT''] = Inr [(Str ''mae'', [(''TimeGPT'', Num (1 - ln 2))])]"
  unfolding panel29_def panel29_log_def holdout28_def input1_def forecast28_def scored28_def
    evaluation1_def
  by (simp_all only: raw_panel dates_panel log_panel tail_panel rest_panel reset_input
      inverse_forecast dates_forecast merge_forecast evaluate_scored summarize_scored
      frame.simps)

lemma shop_fields:
  "csv_columns shop = panel_cols"
  "csv_rows shop = daily ''A'' 29"
  "timegen shop input_df = Inr (forecast28 (Num (ln 2)))"
  by (simp_all add: shop_def)

lemma loaded_shop:
  "loaded shop = \<lparr>vars = (\<lambda>v. None)(''df'' \<mapsto> 0), heap = (\<lambda>a. None)(0 \<mapsto> Frame panel29),
                  next_addr = Suc 0\<rparr>"
  by (simp add: loaded_def load_def shop_fields empty_notebook_def stages)

lemmas run_eval =
  loaded_shop transform_and_split_def timegen_cells_def evaluation_cells_def
  shop_fields frame_of_def summary_of_def new_frame_def stages

text \<open>
  C3. What the code does with ground truth and predictions, at the run above. Every
  value column of the forecast is inverse-transformed (\<^verbatim>\<open>fcst_df\<close> holds 1 in all three),
  but the holdout \<^verbatim>\<open>test_df\<close> is cut from the transformed panel and its column \<^verbatim>\<open>y\<close>
  is never transformed back: the evaluation compares the raw-scale prediction 1 with the
  log-scale truth \<open>ln 2\<close>, and the forecast that equals the truth on every day gets the
  mean absolute error \<open>1 - ln 2 > 0\<close> instead of 0.
\<close>

theorem perfect_forecast_scored_on_log_scale:
  "snd (run (transform_and_split @ timegen_cells shop) (loaded shop)) = None
   \<and> frame_of (fst (run (transform_and_split @ timegen_cells shop) (loaded shop))) ''df''
       = Inr panel29
   \<and> frame_of (fst (run (transform_and_split @ timegen_cells shop) (loaded shop))) ''fcst_df''
       = Inr (forecast28 (Num 1))
   \<and> frame_of (fst (run (transform_and_split @ timegen_cells shop) (loaded shop))) ''test_df''
       = Inr scored28
   \<and> summary_of (fst (run (transform_and_split @ timegen_cells shop) (loaded shop)))
         ''average_metrics''
       = Inr [(Str ''mae'', [(''TimeGPT'', Num (1 - ln 2))])]
   \<and> 0 < 1 - ln (2::real)"
  using ln_2_less_1 by (simp add: run_eval)

text \<open>
  In particular the error the notebook reports for the exact forecast is not 0.
\<close>

theorem perfect_forecast_scored_on_log_scale_witness:
  "summary_of (fst (run (transform_and_split @ timegen_cells shop) (loaded shop)))
         ''average_metrics''
       \<noteq> Inr [(Str ''mae'', [(''TimeGPT'', Num 0)])]"
  using perfect_forecast_scored_on_log_scale by simp

text \<open>
  The panel after the run, for the ownership property above: \<^verbatim>\<open>df\<close> holds the raw
  panel after the transform and at the end of the run, while \<^verbatim>\<open>df_transformed\<close> holds
  another frame.
\<close>

theorem panel_read_only_witness:
  "frame_of (loaded shop) ''df'' = Inr panel29
   \<and> frame_of (fst (run (take 2 (pipeline shop)) (loaded shop))) ''df'' = Inr panel29
   \<and> frame_of (fst (run (take 2 (pipeline shop)) (loaded shop))) ''df_transformed''
       = Inr panel29_log
   \<and> panel29_log \<noteq> panel29
   \<and> frame_of (fst (run (take (length (pipeline shop)) (pipeline shop)) (loaded shop))) ''df''
       = Inr panel29"
proof -
  have l: "frame_of (loaded shop) ''df'' = Inr panel29"
    by (simp add: loaded_shop frame_of_def)
  have t: "take 2 (pipeline shop) = take 2 transform_and_split"
    by (simp add: pipeline_def transform_and_split_def)
  have d: "frame_of (fst (run (take 2 (pipeline shop)) (loaded shop))) ''df_transformed''
       = Inr panel29_log"
    unfolding t by (simp add: run_eval)
  have "body panel29_log \<noteq> body panel29"
    using ln_2_less_1 by (simp add: panel29_log_def panel29_def day_rows_def upt_conv_Cons)
  then have n: "panel29_log \<noteq> panel29" by auto
  from panel_read_only [of 2 shop] panel_read_only [of "length (pipeline shop)" shop] l d n
  show ?thesis by simp
qed

subsection \<open>Attaching the exogenous forecast\<close>

lemma attach_values_positional:
  assumes "col \<in> set (columns fc)" and "length (body fc) = length (body t)"
  shows "attach_values col fc t =
     Inr \<lparr>columns = (if col \<in> set (columns t) then columns t else columns t @ [col]),
          body = map (\<lambda>((i, r), (j, q)). (i, put_cell col (cell_of q col) r))
                     (zip (body t) (body fc))\<rparr>"
proof -
  have "map (\<lambda>((i, r), v). (i, put_cell col v r)) (zip xs (map (\<lambda>(j, q). cell_of q col) ys))
      = map (\<lambda>((i, r), (j, q)). (i, put_cell col (cell_of q col) r)) (zip xs ys)"
    for xs ys :: "(nat \<times> row) list"
    by (simp add: zip_map2 case_prod_beta)
  with assms show ?thesis
    by (simp add: attach_values_def get_col_def set_col_def)
qed

lemma attach_exog_first_row:
  "\<exists>t. attach_values ''TimeGPT_ex'' exog_forecast holdout_BA = Inr t
      \<and> key_of join_key (snd (body t ! 0)) = [Str ''B'', Time 1]
      \<and> cell_of (snd (body t ! 0)) ''TimeGPT_ex'' = Num 10
      \<and> key_of join_key (snd (body exog_forecast ! 0)) = [Str ''A'', Time 1]
      \<and> cell_of (snd (body exog_forecast ! 0)) ''TimeGPT_ex'' = Num 10
      \<and> key_of join_key (snd (body exog_forecast ! 28)) = [Str ''B'', Time 1]
      \<and> cell_of (snd (body exog_forecast ! 28)) ''TimeGPT_ex'' = Num 20"
proof -
  have c: "''TimeGPT_ex'' \<in> set (columns exog_forecast)"
    by (simp add: exog_forecast_def)
  have l: "length (body exog_forecast) = length (body holdout_BA)"
    by (simp add: exog_forecast_def holdout_BA_def holdout_days_def exog_days_def)
  have h0: "body holdout_BA ! 0
      = (0, [(''unique_id'', Str ''B''), (''ds'', Time 1), (''y'', Num (ln 2))])"
    by (simp add: holdout_BA_def holdout_days_def nth_append)
  have f0: "body exog_forecast ! 0
      = (0, [(''unique_id'', Str ''A''), (''ds'', Time 1), (''TimeGPT_ex'', Num 10)])"
    by (simp add: exog_forecast_def exog_days_def nth_append)
  have f28: "body exog_forecast ! 28
      = (28, [(''unique_id'', Str ''B''), (''ds'', Time 1), (''TimeGPT_ex'', Num 20)])"
    by (simp add: exog_forecast_def exog_days_def nth_append)
  have n: "(0::nat) < length (body holdout_BA)"
    by (simp add: holdout_BA_def holdout_days_def)
  let ?t = "\<lparr>columns = (if ''TimeGPT_ex'' \<in> set (columns holdout_BA) then columns holdout_BA
                          else columns holdout_BA @ [''TimeGPT_ex'']),
          body = map (\<lambda>((i, r), (j, q)). (i, put_cell ''TimeGPT_ex'' (cell_of q ''TimeGPT_ex'') r))
                     (zip (body holdout_BA) (body exog_forecast))\<rparr>"
  have t0: "body ?t ! 0 = (0, [(''unique_id'', Str ''B''), (''ds'', Time 1), (''y'', Num (ln 2)),
                               (''TimeGPT_ex'', Num 10)])"
    using n l by (simp add: h0 f0 put_cell_def cell_of_def)
  have "attach_values ''TimeGPT_ex'' exog_forecast holdout_BA = Inr ?t"
    by (rule attach_values_positional [OF c l])
  moreover have "key_of join_key (snd (body ?t ! 0)) = [Str ''B'', Time 1]"
    unfolding t0 by (simp add: key_of_def join_key_def cell_of_def)
  moreover have "cell_of (snd (body ?t ! 0)) ''TimeGPT_ex'' = Num 10"
    unfolding t0 by (simp add: cell_of_def)
  moreover have "key_of join_key (snd (body exog_forecast ! 0)) = [Str ''A'', Time 1]"
    "cell_of (snd (body exog_forecast ! 0)) ''TimeGPT_ex'' = Num 10"
    unfolding f0 by (simp_all add: key_of_def join_key_def cell_of_def)
  moreover have "key_of join_key (snd (body exog_forecast ! 28)) = [Str ''B'', Time 1]"
    "cell_of (snd (body exog_forecast ! 28)) ''TimeGPT_ex'' = Num 20"
    unfolding f28 by (simp_all add: key_of_def join_key_def cell_of_def)
  ultimately show ?thesis by blast
qed

lemma exog_rows: "map snd (body exog_forecast) = exog_days ''A'' 10 @ exog_days ''B'' 20"
  by (simp add: exog_forecast_def exog_days_def map_snd_zip)

lemma exog_keys:
  "map (key_of join_key) (exog_days sid v) = map (\<lambda>t. [Str sid, Time (int t)]) [1..<29]"
  by (simp add: exog_days_def key_of_def join_key_def cell_of_def comp_def)

lemma exog_keys_distinct: "distinct (map (key_of join_key) (map snd (body exog_forecast)))"
proof -
  have "inj_on (\<lambda>t. [Str sid, Time (int t)]) (set [1..<29])" for sid
    by (rule inj_onI) simp
  then have "distinct (map (\<lambda>t. [Str sid, Time (int t)]) [1..<29])" for sid
    by (simp add: distinct_map)
  then show ?thesis
    unfolding exog_rows by (auto simp: exog_keys)
qed

lemma matches_exog_B1:
  "matches join_key exog_forecast [(''unique_id'', Str ''B''), (''ds'', Time 1), (''y'', y)]
     = [[(''unique_id'', Str ''B''), (''ds'', Time 1), (''TimeGPT_ex'', Num 20)]]"
proof -
  have "filter (\<lambda>u. u = 1) [1..<29] = [1::nat]"
    by (simp add: filter_eq_upt)
  then show ?thesis
    unfolding matches_def exog_rows
    by (simp add: exog_days_def key_of_def join_key_def cell_of_def filter_map comp_def)
qed

lemma merge_exog_first_row:
  "\<exists>m. merge_left holdout_BA exog_forecast join_key = Inr m
      \<and> key_of join_key (snd (body m ! 0)) = [Str ''B'', Time 1]
      \<and> cell_of (snd (body m ! 0)) ''TimeGPT_ex'' = Num 20"
proof -
  have a: "set join_key \<subseteq> set (columns holdout_BA) \<inter> set (columns exog_forecast)"
    by (simp add: join_key_def holdout_BA_def exog_forecast_def panel_cols_def)
  have b: "set (columns holdout_BA) \<inter> set (columns exog_forecast) \<subseteq> set join_key"
    by (simp add: join_key_def holdout_BA_def exog_forecast_def panel_cols_def)
  have o: "other_cols join_key exog_forecast = [''TimeGPT_ex'']"
    by (simp add: other_cols_def join_key_def exog_forecast_def)
  have len: "length (body holdout_BA) = 56"
    by (simp add: holdout_BA_def holdout_days_def)
  have h0: "snd (body holdout_BA ! 0)
      = [(''unique_id'', Str ''B''), (''ds'', Time 1), (''y'', Num (ln 2))]"
    by (simp add: holdout_BA_def holdout_days_def nth_append)
  let ?g = "\<lambda>l. l @ (case matches join_key exog_forecast l of
                 [] \<Rightarrow> map (\<lambda>c. (c, NaN)) (other_cols join_key exog_forecast)
               | r # rs \<Rightarrow> map (\<lambda>c. (c, cell_of r c)) (other_cols join_key exog_forecast))"
  let ?m = "\<lparr>columns = columns holdout_BA @ other_cols join_key exog_forecast,
          body = zip [0..<length (body holdout_BA)] (map ?g (map snd (body holdout_BA)))\<rparr>"
  have "snd (body ?m ! 0) = ?g (snd (body holdout_BA ! 0))"
    using len by simp
  also have "\<dots> = [(''unique_id'', Str ''B''), (''ds'', Time 1), (''y'', Num (ln 2)),
                   (''TimeGPT_ex'', Num 20)]"
    unfolding h0 matches_exog_B1 o by (simp add: cell_of_def)
  finally have r0: "snd (body ?m ! 0) = [(''unique_id'', Str ''B''), (''ds'', Time 1),
                   (''y'', Num (ln 2)), (''TimeGPT_ex'', Num 20)]" .
  have "\<not> kinds_differ holdout_BA exog_forecast ''unique_id''"
    by (rule kinds_agree [where n = 2])
       (auto simp: holdout_BA_def exog_forecast_def holdout_days_def exog_days_def cell_of_def
          dest!: set_zip_rightD)
  moreover have "\<not> kinds_differ holdout_BA exog_forecast ''ds''"
    by (rule kinds_agree [where n = 1])
       (auto simp: holdout_BA_def exog_forecast_def holdout_days_def exog_days_def cell_of_def
          dest!: set_zip_rightD)
  ultimately have k: "\<not> list_ex (kinds_differ holdout_BA exog_forecast) join_key"
    by (simp add: join_key_def)
  have "merge_left holdout_BA exog_forecast join_key = Inr ?m"
    by (rule merge_left_plain_frame [OF a k b exog_keys_distinct])
  moreover have "key_of join_key (snd (body ?m ! 0)) = [Str ''B'', Time 1]"
    unfolding r0 by (simp add: key_of_def join_key_def cell_of_def)
  moreover have "cell_of (snd (body ?m ! 0)) ''TimeGPT_ex'' = Num 20"
    unfolding r0 by (simp add: cell_of_def)
  ultimately show ?thesis by blast
qed

text \<open>
  C6. What the code does with the forecast of the exogenous run. The assignment
  \<^verbatim>\<open>test_df["TimeGPT_ex"] = fcst_df["TimeGPT_ex"].values\<close> goes by row position and
  raises nothing when the two frames have the same number of rows: the holdout row of
  series \<^verbatim>\<open>B\<close>, day 1, gets the value 10 forecast for series \<^verbatim>\<open>A\<close>, day 1, although
  the forecast has the row (\<^verbatim>\<open>B\<close>, day 1) with the value 20. The join on the key, as
  used for the other forecasts, attaches 20.
\<close>

theorem exogenous_forecast_attached_by_position:
  "(\<exists>t. attach_values ''TimeGPT_ex'' exog_forecast holdout_BA = Inr t
      \<and> key_of join_key (snd (body t ! 0)) = [Str ''B'', Time 1]
      \<and> cell_of (snd (body t ! 0)) ''TimeGPT_ex'' = Num 10
      \<and> key_of join_key (snd (body exog_forecast ! 0)) = [Str ''A'', Time 1]
      \<and> cell_of (snd (body exog_forecast ! 0)) ''TimeGPT_ex'' = Num 10
      \<and> key_of join_key (snd (body exog_forecast ! 28)) = [Str ''B'', Time 1]
      \<and> cell_of (snd (body exog_forecast ! 28)) ''TimeGPT_ex'' = Num 20)
   \<and> (\<exists>m. merge_left holdout_BA exog_forecast join_key = Inr m
      \<and> key_of join_key (snd (body m ! 0)) = [Str ''B'', Time 1]
      \<and> cell_of (snd (body m ! 0)) ''TimeGPT_ex'' = Num 20)"
  using attach_exog_first_row merge_exog_first_row by blast

text \<open>
  At the same holdout row, the assignment by position and the join on the key attach
  different values.
\<close>

theorem exogenous_forecast_attached_by_position_witness:
  "\<exists>t m. attach_values ''TimeGPT_ex'' exog_forecast holdout_BA = Inr t
      \<and> merge_left holdout_BA exog_forecast join_key = Inr m
      \<and> key_of join_key (snd (body t ! 0)) = key_of join_key (snd (body m ! 0))
      \<and> cell_of (snd (body t ! 0)) ''TimeGPT_ex'' \<noteq> cell_of (snd (body m ! 0)) ''TimeGPT_ex''"
proof -
  from exogenous_forecast_attached_by_position obtain t m where
    "attach_values ''TimeGPT_ex'' exog_forecast holdout_BA = Inr t"
    "merge_left holdout_BA exog_forecast join_key = Inr m"
    "key_of join_key (snd (body t ! 0)) = [Str ''B'', Time 1]"
    "key_of join_key (snd (body m ! 0)) = [Str ''B'', Time 1]"
    "cell_of (snd (body t ! 0)) ''TimeGPT_ex'' = Num 10"
    "cell_of (snd (body m ! 0)) ''TimeGPT_ex'' = Num 20"
    by blast
  then show ?thesis by (intro exI [of _ t] exI [of _ m]) simp
qed

end
